theory Spec2Isabelle
  imports Main
begin

section \<open>JavaScript values\<close>

text \<open>
  The recommendation function of \<^verbatim>\<open>netlify/functions/recommendations.js\<close> (the newer
  revision, with enhancement and rate-limit handling) is embedded here. Strings are
  \<^typ>\<open>string\<close>: a character is a byte of the UTF-8 form of the text (a surrogate that has
  no partner has the three bytes that the same scheme gives it). A number is kept as the
  decimal \<open>mantissa * 10 ^ exponent\<close> that its text denotes; of its rounding to a double
  the model has the two cases that change what a number is, a value that is rounded to
  zero and a value that is rounded to infinity, and not the shortening of the digits of
  a value with more digits than a double holds. An object is the list of its own
  properties in insertion order.
\<close>

datatype jsnum = Decimal (mantissa: int) (exponent: int)

datatype jsval =
    JUndefined
  | JNull
  | JBool bool
  | JNum jsnum
  | JStr string
  | JArr "jsval list"
  | JObj "(string \<times> jsval) list"

datatype exn = TypeError | SyntaxError | RangeError | URIError | FetchError

text \<open>
  A number is rounded to the nearest double, a tie going to the even one. It is zero
  when its magnitude is at most \<open>2 ^ - 1075\<close>, half of the least positive double, and
  infinite when its magnitude is at least \<open>2 ^ 1024 - 2 ^ 970\<close>, half way from the
  greatest double to \<open>2 ^ 1024\<close>.
\<close>

definition two_1075 :: int where
  "two_1075 = 404804506614621236704990693437834614099113299528284236713802716054860679135990693783920767402874248990374155728633623822779617474771586953734026799881477019843034848553132722728933815484186432682479535356945490137124014966849385397236206711298319112681620113024717539104666829230461005064372655017292012526615415482186989568"

definition infinity_from :: int where
  "infinity_from = 179769313486231580793728971405303415079934132710037826936173778980444968292764750946649017977587207096330286416692887910946555547851940402630657488671505820681908902000708383676273854845817711531764475730270069855571366959622842914819860834936475292719074168444365510704342711559699508093042880177904174497792"

definition num_nonzero :: "jsnum \<Rightarrow> bool" where
  "num_nonzero n =
    (if mantissa n = 0 then False
     else if 0 \<le> exponent n then True
     else 10 ^ nat (- exponent n) < \<bar>mantissa n\<bar> * two_1075)"

definition num_infinite :: "jsnum \<Rightarrow> bool" where
  "num_infinite n =
    (if 0 \<le> exponent n then infinity_from \<le> \<bar>mantissa n\<bar> * 10 ^ nat (exponent n)
     else infinity_from * 10 ^ nat (- exponent n) \<le> \<bar>mantissa n\<bar>)"

text \<open>\<^verbatim>\<open>!!v\<close>: the values that count as false are undefined, null, false, 0 and ''.\<close>

fun truthy :: "jsval \<Rightarrow> bool" where
  "truthy JUndefined = False"
| "truthy JNull = False"
| "truthy (JBool b) = b"
| "truthy (JNum n) = num_nonzero n"
| "truthy (JStr s) = (s \<noteq> [])"
| "truthy (JArr xs) = True"
| "truthy (JObj ps) = True"

text \<open>
  \<^verbatim>\<open>v.k\<close> for the property names the program reads from data (\<open>name\<close>, \<open>description\<close>,
  \<open>address\<close>, \<open>locality\<close>, \<open>region\<close>, \<open>postcode\<close>, and the four fields of a request):
  none of them is a property of a built-in prototype, so the read gives an own property
  of an object and undefined on every other value but null and undefined, where it
  throws.
\<close>

type_synonym obj = "(string \<times> jsval) list"

definition own_prop :: "obj \<Rightarrow> string \<Rightarrow> jsval" where
  "own_prop ps k = (case map_of ps k of None \<Rightarrow> JUndefined | Some v \<Rightarrow> v)"

fun get :: "jsval \<Rightarrow> string \<Rightarrow> exn + jsval" where
  "get JUndefined k = Inl TypeError"
| "get JNull k = Inl TypeError"
| "get (JObj ps) k = Inr (own_prop ps k)"
| "get v k = Inr JUndefined"

text \<open>Setting a property: an existing key keeps its place, a new one goes last.\<close>

fun put :: "string \<Rightarrow> jsval \<Rightarrow> obj \<Rightarrow> obj" where
  "put k v [] = [(k, v)]"
| "put k v ((k', v') # ps) = (if k = k' then (k, v) # ps else (k', v') # put k v ps)"

subsection \<open>Numbers as text\<close>

fun digits :: "nat \<Rightarrow> string" where
  "digits n = (if n < 10 then [''0123456789'' ! n]
     else digits (n div 10) @ [''0123456789'' ! (n mod 10)])"

declare digits.simps [simp del]

text \<open>Trailing zeros of a digit string are dropped: they belong to the exponent.\<close>

fun strip_zeros :: "string \<Rightarrow> string" where
  "strip_zeros ds = rev (dropWhile (\<lambda>c. c = CHR ''0'') (rev ds))"

text \<open>
  \<open>Number.prototype.toString\<close>: with \<open>s\<close> the digits of the mantissa without its
  trailing zeros, \<open>k\<close> their number and \<open>n\<close> the number of digits of the mantissa plus
  the exponent, the value is \<open>0.s * 10 ^ n\<close>.
\<close>

definition number_to_string :: "jsnum \<Rightarrow> string" where
  "number_to_string x =
    (if \<not> num_nonzero x then ''0''
     else if num_infinite x then (if mantissa x < 0 then ''-Infinity'' else ''Infinity'')
     else
       let s0 = digits (nat \<bar>mantissa x\<bar>);
           s = strip_zeros s0;
           k = int (length s);
           n = int (length s0) + exponent x;
           body =
             (if k \<le> n \<and> n \<le> 21 then s @ replicate (nat (n - k)) CHR ''0''
              else if 0 < n \<and> n \<le> 21 then take (nat n) s @ ''.'' @ drop (nat n) s
              else if - 6 < n \<and> n \<le> 0 then ''0.'' @ replicate (nat (- n)) CHR ''0'' @ s
              else
                (if k = 1 then s else take 1 s @ ''.'' @ drop 1 s) @ ''e''
                  @ (if 0 \<le> n - 1 then ''+'' else ''-'') @ digits (nat \<bar>n - 1\<bar>))
       in (if mantissa x < 0 then CHR ''-'' # body else body))"

section \<open>JSON.parse\<close>

text \<open>
  The grammar of ECMA-404: the text is cut into tokens, and the tokens are read with a
  stack of the arrays and objects that are open. A duplicate key keeps its last value.
\<close>

datatype token = LBrack | RBrack | LBrace | RBrace | Comma | Colon | TStr string | TWord string

definition is_ws :: "char \<Rightarrow> bool" where
  "is_ws c = (c = CHR '' '' \<or> c = CHR 0x09 \<or> c = CHR 0x0A \<or> c = CHR 0x0D)"

definition is_delim :: "char \<Rightarrow> bool" where
  "is_delim c = (is_ws c \<or> c \<in> set ''[]{},:'' \<or> c = CHR 0x22)"

definition is_digit :: "char \<Rightarrow> bool" where
  "is_digit c = (c \<in> set ''0123456789'')"

definition digit_val :: "char \<Rightarrow> nat" where
  "digit_val c = of_char c - 48"

definition hex_val :: "char \<Rightarrow> nat option" where
  "hex_val c =
    (let n = (of_char c :: nat) in
     if 48 \<le> n \<and> n \<le> 57 then Some (n - 48)
     else if 65 \<le> n \<and> n \<le> 70 then Some (n - 55)
     else if 97 \<le> n \<and> n \<le> 102 then Some (n - 87)
     else None)"

text \<open>
  The content of a string literal is a list of items: a byte of the text as it is
  (\<open>Inl\<close>), or the code unit of a \<^verbatim>\<open>\uXXXX\<close> escape (\<open>Inr\<close>). Two escapes that form a
  surrogate pair are one code point.
\<close>

definition utf8 :: "nat \<Rightarrow> string" where
  "utf8 cp =
    (if cp < 0x80 then [char_of cp]
     else if cp < 0x800 then [char_of (0xC0 + cp div 64), char_of (0x80 + cp mod 64)]
     else if cp < 0x10000 then
       [char_of (0xE0 + cp div 4096), char_of (0x80 + cp div 64 mod 64), char_of (0x80 + cp mod 64)]
     else
       [char_of (0xF0 + cp div 262144), char_of (0x80 + cp div 4096 mod 64),
        char_of (0x80 + cp div 64 mod 64), char_of (0x80 + cp mod 64)])"

fun encode_items :: "(char + nat) list \<Rightarrow> string" where
  "encode_items [] = []"
| "encode_items (Inl c # xs) = c # encode_items xs"
| "encode_items (Inr h # Inr l # xs) =
    (if 0xD800 \<le> h \<and> h < 0xDC00 \<and> 0xDC00 \<le> l \<and> l < 0xE000
     then utf8 (0x10000 + (h - 0xD800) * 1024 + (l - 0xDC00)) @ encode_items xs
     else utf8 h @ encode_items (Inr l # xs))"
| "encode_items (Inr u # xs) = utf8 u @ encode_items xs"

datatype lex_mode =
    Idle
  | InWord string
  | InStr "(char + nat) list"
  | InEsc "(char + nat) list"
  | InHex "(char + nat) list" "nat list"

text \<open>The accumulators of a mode hold what was read so far, last first.\<close>

function lex :: "lex_mode \<Rightarrow> string \<Rightarrow> token list option" where
  "lex Idle [] = Some []"
| "lex (InWord w) [] = Some [TWord (rev w)]"
| "lex (InStr acc) [] = None"
| "lex (InEsc acc) [] = None"
| "lex (InHex acc hs) [] = None"
| "lex Idle (c # cs) =
    (if is_ws c then lex Idle cs
     else if c = CHR ''['' then map_option (Cons LBrack) (lex Idle cs)
     else if c = CHR '']'' then map_option (Cons RBrack) (lex Idle cs)
     else if c = CHR ''{'' then map_option (Cons LBrace) (lex Idle cs)
     else if c = CHR ''}'' then map_option (Cons RBrace) (lex Idle cs)
     else if c = CHR '','' then map_option (Cons Comma) (lex Idle cs)
     else if c = CHR '':'' then map_option (Cons Colon) (lex Idle cs)
     else if c = CHR 0x22 then lex (InStr []) cs
     else lex (InWord [c]) cs)"
| "lex (InWord w) (c # cs) =
    (if is_delim c then map_option (Cons (TWord (rev w))) (lex Idle (c # cs))
     else lex (InWord (c # w)) cs)"
| "lex (InStr acc) (c # cs) =
    (if c = CHR 0x22 then map_option (Cons (TStr (encode_items (rev acc)))) (lex Idle cs)
     else if c = CHR 0x5C then lex (InEsc acc) cs
     else if (of_char c :: nat) < 0x20 then None
     else lex (InStr (Inl c # acc)) cs)"
| "lex (InEsc acc) (c # cs) =
    (if c = CHR 0x22 \<or> c = CHR 0x5C \<or> c = CHR ''/'' then lex (InStr (Inl c # acc)) cs
     else if c = CHR ''b'' then lex (InStr (Inl (CHR 0x08) # acc)) cs
     else if c = CHR ''f'' then lex (InStr (Inl (CHR 0x0C) # acc)) cs
     else if c = CHR ''n'' then lex (InStr (Inl (CHR 0x0A) # acc)) cs
     else if c = CHR ''r'' then lex (InStr (Inl (CHR 0x0D) # acc)) cs
     else if c = CHR ''t'' then lex (InStr (Inl (CHR 0x09) # acc)) cs
     else if c = CHR ''u'' then lex (InHex acc []) cs
     else None)"
| "lex (InHex acc hs) (c # cs) =
    (case hex_val c of
       None \<Rightarrow> None
     | Some h \<Rightarrow>
         (if length hs = 3
          then lex (InStr (Inr (foldl (\<lambda>a d. a * 16 + d) 0 (rev (h # hs))) # acc)) cs
          else lex (InHex acc (h # hs)) cs))"
  by pat_completeness auto
termination
  by (relation "measure (\<lambda>(m, cs). 2 * length cs + (case m of InWord w \<Rightarrow> 1 | _ \<Rightarrow> 0))")
    (auto split: lex_mode.splits)

text \<open>
  A word is \<open>true\<close>, \<open>false\<close>, \<open>null\<close> or a number:
  \<^verbatim>\<open>-?(0|[1-9][0-9]*)(\.[0-9]+)?([eE][+-]?[0-9]+)?\<close>.
\<close>

definition nat_of_digits :: "string \<Rightarrow> nat" where
  "nat_of_digits ds = foldl (\<lambda>a c. a * 10 + digit_val c) 0 ds"

definition parse_exponent :: "string \<Rightarrow> int option" where
  "parse_exponent r =
    (case r of
       [] \<Rightarrow> Some 0
     | c # r' \<Rightarrow>
         (if c = CHR ''e'' \<or> c = CHR ''E'' then
            (let neg = (r' \<noteq> [] \<and> hd r' = CHR ''-'');
                 ds = (if r' \<noteq> [] \<and> (hd r' = CHR ''-'' \<or> hd r' = CHR ''+'') then tl r' else r')
             in if ds \<noteq> [] \<and> list_all is_digit ds
                then Some (if neg then - int (nat_of_digits ds) else int (nat_of_digits ds))
                else None)
          else None))"

definition parse_number :: "string \<Rightarrow> jsnum option" where
  "parse_number w =
    (let neg = (w \<noteq> [] \<and> hd w = CHR ''-'');
         r1 = (if neg then tl w else w);
         ip = takeWhile is_digit r1;
         r2 = dropWhile is_digit r1;
         dot = (r2 \<noteq> [] \<and> hd r2 = CHR ''.'');
         fp = (if dot then takeWhile is_digit (tl r2) else []);
         r3 = (if dot then dropWhile is_digit (tl r2) else r2)
     in if ip = [] \<or> (hd ip = CHR ''0'' \<and> ip \<noteq> ''0'') \<or> (dot \<and> fp = []) then None
        else
          (case parse_exponent r3 of
             None \<Rightarrow> None
           | Some e \<Rightarrow>
               (let ds = strip_zeros (ip @ fp);
                    m = int (nat_of_digits ds)
                in if m = 0 then Some (Decimal 0 0)
                   else Some (Decimal (if neg then - m else m)
                          (e - int (length fp) + (int (length (ip @ fp)) - int (length ds)))))))"

definition word_value :: "string \<Rightarrow> jsval option" where
  "word_value w =
    (if w = ''true'' then Some (JBool True)
     else if w = ''false'' then Some (JBool False)
     else if w = ''null'' then Some JNull
     else map_option JNum (parse_number w))"

datatype frame = AFrame "jsval list" | OFrame "(string \<times> jsval) list" "string option"

datatype phase =
  ExpValue | ExpValueOrEnd | ExpKeyOrEnd | ExpKey | ExpColon | AfterValue | Done jsval

text \<open>A value is complete: it is the whole text, or goes into the innermost open container.\<close>

fun complete :: "jsval \<Rightarrow> frame list \<Rightarrow> (frame list \<times> phase) option" where
  "complete v [] = Some ([], Done v)"
| "complete v (AFrame es # st) = Some (AFrame (v # es) # st, AfterValue)"
| "complete v (OFrame ps (Some k) # st) = Some (OFrame (put k v ps) None # st, AfterValue)"
| "complete v (OFrame ps None # st) = None"

fun close_array :: "frame list \<Rightarrow> (frame list \<times> phase) option" where
  "close_array (AFrame es # st) = complete (JArr (rev es)) st"
| "close_array st = None"

fun close_object :: "frame list \<Rightarrow> (frame list \<times> phase) option" where
  "close_object (OFrame ps None # st) = complete (JObj ps) st"
| "close_object st = None"

fun set_key :: "string \<Rightarrow> frame list \<Rightarrow> (frame list \<times> phase) option" where
  "set_key k (OFrame ps None # st) = Some (OFrame ps (Some k) # st, ExpColon)"
| "set_key k st = None"

fun start_value :: "token \<Rightarrow> frame list \<Rightarrow> (frame list \<times> phase) option" where
  "start_value (TStr s) st = complete (JStr s) st"
| "start_value (TWord w) st = (case word_value w of None \<Rightarrow> None | Some v \<Rightarrow> complete v st)"
| "start_value LBrack st = Some (AFrame [] # st, ExpValueOrEnd)"
| "start_value LBrace st = Some (OFrame [] None # st, ExpKeyOrEnd)"
| "start_value t st = None"

fun step :: "frame list \<times> phase \<Rightarrow> token \<Rightarrow> (frame list \<times> phase) option" where
  "step (st, ExpValue) t = start_value t st"
| "step (st, ExpValueOrEnd) t = (if t = RBrack then close_array st else start_value t st)"
| "step (st, ExpKeyOrEnd) t =
    (case t of TStr k \<Rightarrow> set_key k st | RBrace \<Rightarrow> close_object st | _ \<Rightarrow> None)"
| "step (st, ExpKey) t = (case t of TStr k \<Rightarrow> set_key k st | _ \<Rightarrow> None)"
| "step (st, ExpColon) t = (if t = Colon then Some (st, ExpValue) else None)"
| "step (st, AfterValue) t =
    (case t of
       Comma \<Rightarrow>
         (case st of
            AFrame es # st' \<Rightarrow> Some (st, ExpValue)
          | OFrame ps k # st' \<Rightarrow> Some (st, ExpKey)
          | [] \<Rightarrow> None)
     | RBrack \<Rightarrow> close_array st
     | RBrace \<Rightarrow> close_object st
     | _ \<Rightarrow> None)"
| "step (st, Done v) t = None"

fun run :: "frame list \<times> phase \<Rightarrow> token list \<Rightarrow> (frame list \<times> phase) option" where
  "run s [] = Some s"
| "run s (t # ts) = (case step s t of None \<Rightarrow> None | Some s' \<Rightarrow> run s' ts)"

definition JSON_parse :: "string \<Rightarrow> exn + jsval" where
  "JSON_parse s =
    (case lex Idle s of
       None \<Rightarrow> Inl SyntaxError
     | Some ts \<Rightarrow>
         (case run ([], ExpValue) ts of
            Some ([], Done v) \<Rightarrow> Inr v
          | _ \<Rightarrow> Inl SyntaxError))"

section \<open>Strings\<close>

text \<open>
  \<^verbatim>\<open>text.match(/\[[\s\S]*\]/)\<close>: the match starts at the first \<open>[\<close> and, the star being
  greedy, ends at the last \<open>]\<close> after it; there is none when no \<open>]\<close> follows the first \<open>[\<close>.
\<close>

definition match_brackets :: "string \<Rightarrow> string option" where
  "match_brackets text =
    (let t = dropWhile (\<lambda>c. c \<noteq> CHR ''['') text;
         body = rev (dropWhile (\<lambda>c. c \<noteq> CHR '']'') (rev (tl t)))
     in if t = [] \<or> body = [] then None else Some (CHR ''['' # body))"

text \<open>
  The UTF-16 code units of a string, which are what the length and the string methods
  of the engine count: a code point of four bytes is two code units.
\<close>

fun units :: "string \<Rightarrow> int list" where
  "units [] = []"
| "units (c # cs) =
    (let b = (of_char c :: int);
         k = (if b < 0xC0 then 0 else if b < 0xE0 then 1 else if b < 0xF0 then 2 else 3);
         lead = (if b < 0xC0 then b else if b < 0xE0 then b - 0xC0
                 else if b < 0xF0 then b - 0xE0 else b - 0xF0);
         cp = foldl (\<lambda>a x. a * 64 + (of_char x :: int) mod 64) lead (take k cs)
     in (if cp < 0x10000 then [cp]
         else [0xD800 + (cp - 0x10000) div 1024, 0xDC00 + (cp - 0x10000) mod 1024])
        @ units (drop k cs))"

text \<open>\<^verbatim>\<open>s.includes(t)\<close>: the code units of \<open>t\<close> occur in those of \<open>s\<close>.\<close>

fun includes_list :: "'a list \<Rightarrow> 'a list \<Rightarrow> bool" where
  "includes_list [] t = (t = [])"
| "includes_list (c # cs) t = (take (length t) (c # cs) = t \<or> includes_list cs t)"

definition includes_str :: "string \<Rightarrow> string \<Rightarrow> bool" where
  "includes_str s t = includes_list (units s) (units t)"

text \<open>
  \<open>encodeURIComponent\<close>, as the standard defines it on the code units of the string: a
  letter or digit of ASCII and the marks \<^verbatim>\<open>-_.!~*'()\<close> stand for themselves; any other
  code point is written as the bytes of its UTF-8 form, each as \<open>%\<close> and two hexadecimal
  digits; a surrogate without its partner is a URIError.
\<close>

definition unreserved_chars :: string where
  "unreserved_chars =
    ''ABCDEFGHIJKLMNOPQRSTUVWXYZabcdefghijklmnopqrstuvwxyz0123456789-_.!~*'()''"

definition hex_octet :: "nat \<Rightarrow> string" where
  "hex_octet n = [CHR ''%'', ''0123456789ABCDEF'' ! (n div 16), ''0123456789ABCDEF'' ! (n mod 16)]"

definition encode_point :: "int \<Rightarrow> string" where
  "encode_point cp =
    (case List.find (\<lambda>c. (of_char c :: int) = cp) unreserved_chars of
       Some c \<Rightarrow> [c]
     | None \<Rightarrow> concat (map (\<lambda>c. hex_octet (of_char c)) (utf8 (nat cp))))"

fun encode :: "int list \<Rightarrow> exn + string" where
  "encode [] = Inr []"
| "encode (u # us) =
    (let paired = (0xD800 \<le> u \<and> u < 0xDC00 \<and> us \<noteq> [] \<and> 0xDC00 \<le> hd us \<and> hd us < 0xE000);
         cp = (if paired then 0x10000 + (u - 0xD800) * 1024 + (hd us - 0xDC00) else u)
     in if \<not> paired \<and> 0xD800 \<le> u \<and> u < 0xE000 then Inl URIError
        else (case encode (if paired then tl us else us) of
                Inl err \<Rightarrow> Inl err
              | Inr t \<Rightarrow> Inr (encode_point cp @ t)))"

definition encodeURIComponent :: "string \<Rightarrow> exn + string" where
  "encodeURIComponent s = encode (units s)"

text \<open>\<^verbatim>\<open>parts.join(sep)\<close> on strings.\<close>

fun join :: "string \<Rightarrow> string list \<Rightarrow> string" where
  "join sep [] = []"
| "join sep [x] = x"
| "join sep (x # y # ys) = x @ sep @ join sep (y # ys)"

text \<open>
  \<open>ToString\<close>, which a template literal applies to its values, \<open>table[key]\<close> to the
  key, \<open>encodeURIComponent\<close> to its argument and \<open>join\<close> to the elements of an array.
  The values are those that \<open>JSON.parse\<close> gives. An array is its elements joined by a
  comma, undefined and null counting as empty. An object is \<open>[object Object]\<close>; one
  with a property \<open>toString\<close> of its own (data: not a function) has no primitive value,
  and the conversion throws a TypeError.
\<close>

fun sequence :: "(exn + 'a) list \<Rightarrow> exn + 'a list" where
  "sequence [] = Inr []"
| "sequence (x # xs) =
    (case x of
       Inl e \<Rightarrow> Inl e
     | Inr v \<Rightarrow> (case sequence xs of Inl e \<Rightarrow> Inl e | Inr vs \<Rightarrow> Inr (v # vs)))"

fun to_string :: "jsval \<Rightarrow> exn + string" where
  "to_string JUndefined = Inr ''undefined''"
| "to_string JNull = Inr ''null''"
| "to_string (JBool b) = Inr (if b then ''true'' else ''false'')"
| "to_string (JNum n) = Inr (number_to_string n)"
| "to_string (JStr s) = Inr s"
| "to_string (JArr xs) =
    (case sequence (map (\<lambda>x. if x = JUndefined \<or> x = JNull then Inr [] else to_string x) xs) of
       Inl e \<Rightarrow> Inl e
     | Inr ss \<Rightarrow> Inr (join '','' ss))"
| "to_string (JObj ps) =
    (if ''toString'' \<in> fst ` set ps then Inl TypeError else Inr ''[object Object]'')"

section \<open>Tables\<close>

text \<open>
  \<^verbatim>\<open>table[key] || dflt\<close> on an object literal whose values are all truthy. A key that is
  not a property of the literal is looked up in \<open>Object.prototype\<close>, whose properties are
  functions (and, for \<open>__proto__\<close>, the prototype object): truthy values, so the default
  is not taken for them.
\<close>

definition object_prototype_names :: "string list" where
  "object_prototype_names =
    [''constructor'', ''__defineGetter__'', ''__defineSetter__'', ''hasOwnProperty'',
     ''__lookupGetter__'', ''__lookupSetter__'', ''isPrototypeOf'', ''propertyIsEnumerable'',
     ''toString'', ''valueOf'', ''__proto__'', ''toLocaleString'']"

datatype 'a or_builtin = Value 'a | Builtin string

definition lookup_or :: "(string \<times> 'a) list \<Rightarrow> string \<Rightarrow> 'a \<Rightarrow> 'a or_builtin" where
  "lookup_or table key dflt =
    (case map_of table key of
       Some v \<Rightarrow> Value v
     | None \<Rightarrow> if key \<in> set object_prototype_names then Builtin key else Value dflt)"

definition supported_moods :: "string list" where
  "supported_moods = [''coffee'', ''quick-bite'', ''healthy'', ''comfort'', ''date-night'', ''adventure'']"

subsection \<open>getMockRecommendations\<close>

definition rec_literal :: "string \<Rightarrow> string \<Rightarrow> string \<Rightarrow> string \<Rightarrow> string \<Rightarrow> jsval" where
  "rec_literal n a d dist h =
    JObj [(''name'', JStr n), (''address'', JStr a), (''description'', JStr d),
          (''distance'', JStr dist), (''hours'', JStr h)]"

definition quick_bite :: jsval where
  "quick_bite = JArr
    [rec_literal ''Chipotle'' ''Multiple locations''
       ''Fast-casual spot with delicious burritos and bowls ready in minutes.''
       ''3 min walk'' ''Open now'',
     rec_literal ''Panera Bread'' ''Multiple locations''
       ''Quick service restaurant with fresh sandwiches and soups.''
       ''5 min walk'' ''Open now'']"

definition mockData :: "(string \<times> jsval) list" where
  "mockData =
    [(''coffee'', JArr
       [rec_literal ''Starbucks'' ''Multiple locations''
          ''Cozy corner cafe with artisanal coffee and fresh pastries. Perfect for your caffeine fix!''
          ''5 min walk'' ''Open now'',
        rec_literal ''Peet's Coffee'' ''Multiple locations''
          ''Known for bold, rich roasts and excellent espresso drinks.''
          ''8 min walk'' ''Open now'']),
     (''quick-bite'', quick_bite),
     (''healthy'', JArr
       [rec_literal ''Sweetgreen'' ''Multiple locations''
          ''Farm-to-table salads and grain bowls for the health-conscious.''
          ''7 min walk'' ''Open now'',
        rec_literal ''Panera Bread'' ''Multiple locations''
          ''Nutrient-packed meals with healthy options available.''
          ''10 min walk'' ''Open now'']),
     (''comfort'', JArr
       [rec_literal ''Applebee's'' ''Multiple locations''
          ''Hearty comfort food classics and American favorites.''
          ''8 min drive'' ''Open now'',
        rec_literal ''Chili's'' ''Multiple locations''
          ''Warm, inviting spot serving up comfort favorites.''
          ''12 min drive'' ''Open now'']),
     (''date-night'', JArr
       [rec_literal ''The Cheesecake Factory'' ''Multiple locations''
          ''Upscale casual dining with an extensive menu perfect for date night.''
          ''10 min drive'' ''Open now'',
        rec_literal ''Olive Garden'' ''Multiple locations''
          ''Italian classics in a romantic atmosphere.''
          ''15 min drive'' ''Open now'']),
     (''adventure'', JArr
       [rec_literal ''P.F. Chang's'' ''Multiple locations''
          ''Explore bold Asian-inspired flavors and creative dishes.''
          ''12 min drive'' ''Open now'',
        rec_literal ''Benihana'' ''Multiple locations''
          ''Japanese hibachi experience with entertaining chefs.''
          ''15 min drive'' ''Open now''])]"

text \<open>\<^verbatim>\<open>return mockData[mood] || mockData['quick-bite'];\<close>\<close>

definition getMockRecommendations :: "string \<Rightarrow> jsval or_builtin" where
  "getMockRecommendations mood = lookup_or mockData mood quick_bite"

section \<open>The providers\<close>

text \<open>
  What the places provider sends is typed as the provider documents it: a place, its
  location, its hours and its categories are objects with the fields below, each of
  which may be missing (\<open>None\<close>); distance, price and day are integers.
\<close>

record fsq_location =
  address :: "string option"
  locality :: "string option"
  region :: "string option"
  postcode :: "string option"

record fsq_hours_entry =
  h_day :: "int option"
  h_open :: "string option"
  h_close :: "string option"

record fsq_hours =
  display :: "string option"
  open_now :: "bool option"
  regular :: "fsq_hours_entry list option"

record fsq_category =
  cat_name :: "string option"

record fsq_place =
  fsq_id :: "string option"
  name :: "string option"
  place_location :: "fsq_location option"
  distance :: "int option"
  rating :: "jsnum option"
  price :: "int option"
  place_hours :: "fsq_hours option"
  categories :: "fsq_category list option"

record fsq_search =
  results :: "fsq_place list option"

text \<open>The reply of the text provider, down to the text of its first part.\<close>

record gemini_part =
  g_text :: "string option"

record gemini_content =
  g_parts :: "gemini_part list option"

record gemini_candidate =
  g_content :: "gemini_content option"

record gemini_data =
  g_candidates :: "gemini_candidate list option"

text \<open>
  The outcome of \<open>fetch\<close>: the promise is rejected, or there is a response with a status,
  whose body \<open>text()\<close> and \<open>json()\<close> read; \<open>None\<close> is a read that throws.
\<close>

record 'a http_response =
  status :: nat
  resp_text :: "string option"
  resp_json :: "'a option"

datatype 'a fetched = Rejected | Response "'a http_response"

definition ok :: "'a http_response \<Rightarrow> bool" where
  "ok r = (200 \<le> status r \<and> status r \<le> 299)"

text \<open>
  A request is what the program puts into the holes of its URL or prompt template; the
  rest of the template is constant. The search URL has the parameters \<open>query\<close>, \<open>near\<close>,
  \<open>categories\<close>, \<open>limit\<close>, \<open>sort\<close> and \<open>open_now\<close>; query and near are encoded. The
  prompt of a generation has the description of the mood, the location, the time
  available, the maximal distance and the current time; the prompt of an enhancement
  has the description of the mood, the location and, for each place, its name and its
  category.
\<close>

record search_request =
  q_query :: "string or_builtin"
  q_near :: string
  q_categories :: "string or_builtin"
  q_limit :: nat
  q_sort :: string
  q_open_now :: bool

datatype gemini_request =
    GeneratePrompt "string or_builtin" string string string string
  | EnhancePrompt "string or_builtin" string "(string \<times> string) list"

text \<open>The object that the handler serialises into the body of a success response.\<close>

record envelope =
  recommendations :: "jsval or_builtin"
  source :: string
  rateLimitReached :: bool
  message :: "string option"

text \<open>
  The environment of one invocation: the two credentials of \<open>process.env\<close>, the clock,
  the providers, as functions of the request they get, and the engine. The details of
  the places are fetched one by one: the provider may answer the \<open>i\<close>-th fetch as it
  likes. Of the engine, the environment has what depends on its tables and its limits:
  \<open>String.prototype.toLowerCase\<close>, which folds all of Unicode; the exception, if any,
  that it raises while it builds the text of a prompt (a text longer than its longest
  string); and the exception, if any, that \<open>JSON.stringify\<close> raises on the envelope (a
  text longer than its longest string, a value nested deeper than its stack).
\<close>

record env =
  FOURSQUARE_API_KEY :: "string option"
  GEMINI_API_KEY :: "string option"
  today :: string
  currentTime :: string
  fetch_search :: "search_request \<Rightarrow> fsq_search fetched"
  fetch_detail :: "nat \<Rightarrow> string \<Rightarrow> fsq_place fetched"
  fetch_gemini :: "gemini_request \<Rightarrow> gemini_data fetched"
  toLowerCase :: "string \<Rightarrow> string"
  prompt_error :: "gemini_request \<Rightarrow> exn option"
  stringify_error :: "envelope \<Rightarrow> exn option"

text \<open>\<^verbatim>\<open>if (process.env.KEY)\<close>: the variable is set, and not to the empty string.\<close>

definition configured :: "string option \<Rightarrow> bool" where
  "configured k = (case k of None \<Rightarrow> False | Some s \<Rightarrow> s \<noteq> [])"

definition opt_str :: "string option \<Rightarrow> jsval" where
  "opt_str x = (case x of None \<Rightarrow> JUndefined | Some s \<Rightarrow> JStr s)"

text \<open>A missing value in a template literal is the text \<open>undefined\<close>.\<close>

definition template_str :: "string option \<Rightarrow> string" where
  "template_str x = (case x of None \<Rightarrow> ''undefined'' | Some s \<Rightarrow> s)"

definition location_val :: "fsq_location option \<Rightarrow> jsval" where
  "location_val l =
    (case l of
       None \<Rightarrow> JUndefined
     | Some x \<Rightarrow> JObj (List.map_filter (\<lambda>(k, v). map_option (\<lambda>s. (k, JStr s)) v)
         [(''address'', address x), (''locality'', locality x),
          (''region'', region x), (''postcode'', postcode x)]))"

section \<open>Places Lookup\<close>

subsection \<open>formatAddress\<close>

definition formatAddress :: "jsval \<Rightarrow> exn + jsval" where
  "formatAddress location =
    (if \<not> truthy location then Inr JNull
     else
       (case sequence (map (get location) [''address'', ''locality'', ''region'', ''postcode'']) of
          Inl e \<Rightarrow> Inl e
        | Inr vals \<Rightarrow>
            (case sequence (map to_string (filter truthy vals)) of
               Inl e \<Rightarrow> Inl e
             | Inr parts \<Rightarrow>
                 (let s = join '', '' parts in Inr (if s = [] then JNull else JStr s)))))"

subsection \<open>formatHours\<close>

definition days :: "string list" where
  "days = [''Sunday'', ''Monday'', ''Tuesday'', ''Wednesday'', ''Thursday'', ''Friday'', ''Saturday'']"

text \<open>\<^verbatim>\<open>days[h.day]\<close>: undefined when the day is missing or no index of the array.\<close>

definition day_name :: "int option \<Rightarrow> string option" where
  "day_name d =
    (case d of
       None \<Rightarrow> None
     | Some i \<Rightarrow> if 0 \<le> i \<and> i < 7 then Some (days ! nat i) else None)"

text \<open>
  \<^verbatim>\<open>hours.regular?.find(h => days[h.day] === today)\<close>, where \<open>today\<close> is the weekday
  that \<^verbatim>\<open>new Date()\<close> gives.
\<close>

definition todayHours :: "string \<Rightarrow> fsq_hours \<Rightarrow> fsq_hours_entry option" where
  "todayHours tday h =
    (case regular h of
       None \<Rightarrow> None
     | Some es \<Rightarrow> List.find (\<lambda>en. day_name (h_day en) = Some tday) es)"

definition formatHours :: "string \<Rightarrow> fsq_hours option \<Rightarrow> jsval" where
  "formatHours tday hours =
    (case hours of
       None \<Rightarrow> JNull
     | Some h \<Rightarrow>
         (if \<not> truthy (opt_str (display h)) then JNull
          else
            (case todayHours tday h of
               Some en \<Rightarrow>
                 JStr (''Open '' @ template_str (h_open en) @ ''-'' @ template_str (h_close en))
             | None \<Rightarrow> JStr (if open_now h = Some True then ''Open now'' else ''Check hours''))))"

subsection \<open>getPlacesFromFoursquare\<close>

definition moodToQuery :: "(string \<times> string) list" where
  "moodToQuery =
    [(''coffee'', ''coffee''),
     (''quick-bite'', ''fast food''),
     (''healthy'', ''healthy food salad''),
     (''comfort'', ''comfort food american''),
     (''date-night'', ''fine dining romantic''),
     (''adventure'', ''unique restaurant'')]"

definition moodToCategory :: "(string \<times> string) list" where
  "moodToCategory =
    [(''coffee'', ''13035''),
     (''quick-bite'', ''13145''),
     (''healthy'', ''13377''),
     (''comfort'', ''13065''),
     (''date-night'', ''13003''),
     (''adventure'', ''13000'')]"

text \<open>
  The search request that \<open>getPlacesFromFoursquare(location, mood, maxDistance)\<close> sends,
  for the property key that the mood is. The URL is built inside the \<open>try\<close>: there the
  query and the location are converted to strings and encoded.
\<close>

definition encode_value :: "string or_builtin \<Rightarrow> exn + string or_builtin" where
  "encode_value x =
    (case x of
       Builtin f \<Rightarrow> Inr (Builtin f)
     | Value q \<Rightarrow> (case encodeURIComponent q of Inl err \<Rightarrow> Inl err | Inr t \<Rightarrow> Inr (Value t)))"

definition search_request_of :: "jsval \<Rightarrow> string \<Rightarrow> jsval \<Rightarrow> exn + search_request" where
  "search_request_of location key maxDistance =
    (case encode_value (lookup_or moodToQuery key ''restaurant'') of
       Inl err \<Rightarrow> Inl err
     | Inr query \<Rightarrow>
         (case to_string location of
            Inl err \<Rightarrow> Inl err
          | Inr l \<Rightarrow>
              (case encodeURIComponent l of
                 Inl err \<Rightarrow> Inl err
               | Inr near \<Rightarrow>
                   Inr \<lparr>q_query = query,
                        q_near = near,
                        q_categories = lookup_or moodToCategory key ''13000'',
                        q_limit = 5,
                        q_sort = ''RELEVANCE'',
                        q_open_now = True\<rparr>)))"

text \<open>
  \<^verbatim>\<open>place.distance ? `${Math.round(place.distance)} meters` : null\<close>, the distance being
  an integer.
\<close>

definition distance_text :: "int option \<Rightarrow> jsval" where
  "distance_text d =
    (case d of
       None \<Rightarrow> JNull
     | Some i \<Rightarrow> if i = 0 then JNull else JStr (number_to_string (Decimal i 0) @ '' meters''))"

definition rating_text :: "jsnum option \<Rightarrow> jsval" where
  "rating_text r =
    (case r of
       None \<Rightarrow> JNull
     | Some x \<Rightarrow> if \<not> num_nonzero x then JNull else JStr (number_to_string x @ ''/10''))"

text \<open>
  \<^verbatim>\<open>detail.price ? '$'.repeat(detail.price) : null\<close>: \<open>repeat\<close> throws a RangeError on a
  negative count and on a result longer than the longest string of the engine (V8).
\<close>

definition max_string_length :: int where
  "max_string_length = 536870888"

definition price_text :: "int option \<Rightarrow> exn + jsval" where
  "price_text p =
    (case p of
       None \<Rightarrow> Inr JNull
     | Some i \<Rightarrow>
         if i = 0 then Inr JNull
         else if i < 0 \<or> max_string_length < i then Inl RangeError
         else Inr (JStr (replicate (nat i) CHR ''$'')))"

text \<open>\<^verbatim>\<open>detail.categories?.[0]?.name || null\<close>\<close>

definition category_text :: "fsq_category list option \<Rightarrow> jsval" where
  "category_text cs =
    (case cs of
       Some (c # cs') \<Rightarrow> (if truthy (opt_str (cat_name c)) then opt_str (cat_name c) else JNull)
     | _ \<Rightarrow> JNull)"

text \<open>The place with the fields of the search result only.\<close>

definition coarse_place :: "fsq_place \<Rightarrow> exn + obj" where
  "coarse_place place =
    (case formatAddress (location_val (place_location place)) of
       Inl e \<Rightarrow> Inl e
     | Inr a \<Rightarrow>
         Inr [(''name'', opt_str (name place)),
              (''address'', a),
              (''distance'', distance_text (distance place))])"

definition detailed_place :: "string \<Rightarrow> fsq_place \<Rightarrow> fsq_place \<Rightarrow> exn + obj" where
  "detailed_place tday place detail =
    (case formatAddress (location_val (place_location detail)) of
       Inl e \<Rightarrow> Inl e
     | Inr a \<Rightarrow>
         (case price_text (price detail) of
            Inl e \<Rightarrow> Inl e
          | Inr pr \<Rightarrow>
              Inr [(''name'', opt_str (name detail)),
                   (''address'', a),
                   (''distance'', distance_text (distance place)),
                   (''rating'', rating_text (rating detail)),
                   (''price'', pr),
                   (''hours'', formatHours tday (place_hours detail)),
                   (''category'', category_text (categories detail))]))"

text \<open>
  The function mapped over the first three places: its body is one \<open>try\<close>, whose \<open>catch\<close>
  gives the coarse place.
\<close>

definition place_details_try :: "env \<Rightarrow> nat \<Rightarrow> fsq_place \<Rightarrow> exn + obj" where
  "place_details_try e i place =
    (case fetch_detail e i (template_str (fsq_id place)) of
       Rejected \<Rightarrow> Inl FetchError
     | Response detailResponse \<Rightarrow>
         if ok detailResponse then
           (case resp_json detailResponse of
              None \<Rightarrow> Inl SyntaxError
            | Some detail \<Rightarrow> detailed_place (today e) place detail)
         else coarse_place place)"

definition place_details :: "env \<Rightarrow> nat \<Rightarrow> fsq_place \<Rightarrow> exn + obj" where
  "place_details e i place =
    (case place_details_try e i place of
       Inl err \<Rightarrow> coarse_place place
     | Inr p \<Rightarrow> Inr p)"

datatype places_result = PlacesResult (places_of: "obj list") (rateLimited: bool)

text \<open>
  The body of the \<open>try\<close> of \<open>getPlacesFromFoursquare\<close>. \<open>Promise.all\<close> is rejected when
  one of its promises is. Every detailed place is an object, so the final filter
  \<^verbatim>\<open>p !== null\<close> keeps them all.
\<close>

definition getPlacesFromFoursquare_try ::
  "env \<Rightarrow> jsval \<Rightarrow> string \<Rightarrow> jsval \<Rightarrow> exn + places_result" where
  "getPlacesFromFoursquare_try e location key maxDistance =
    (case search_request_of location key maxDistance of
       Inl err \<Rightarrow> Inl err
     | Inr q \<Rightarrow>
    (case fetch_search e q of
       Rejected \<Rightarrow> Inl FetchError
     | Response searchResponse \<Rightarrow>
         if status searchResponse = 429 \<or> status searchResponse = 402
         then Inr (PlacesResult [] True)
         else if \<not> ok searchResponse then
           (case resp_text searchResponse of
              None \<Rightarrow> Inl FetchError
            | Some errorText \<Rightarrow> Inr (PlacesResult [] False))
         else
           (case resp_json searchResponse of
              None \<Rightarrow> Inl SyntaxError
            | Some searchData \<Rightarrow>
                (let places = (case results searchData of None \<Rightarrow> [] | Some rs \<Rightarrow> rs) in
                 case sequence (map (\<lambda>(i, place). place_details e i place)
                        (enumerate 0 (take 3 places))) of
                   Inl err \<Rightarrow> Inl err
                 | Inr detailedPlaces \<Rightarrow> Inr (PlacesResult detailedPlaces False)))))"

text \<open>
  \<^verbatim>\<open>moodToQuery[mood]\<close> and \<^verbatim>\<open>moodToCategory[mood]\<close> stand before the \<open>try\<close>: a
  mood that has no conversion to a property key is an exception of the function.
\<close>

definition getPlacesFromFoursquare ::
  "env \<Rightarrow> jsval \<Rightarrow> jsval \<Rightarrow> jsval \<Rightarrow> exn + places_result" where
  "getPlacesFromFoursquare e location mood maxDistance =
    (case to_string mood of
       Inl err \<Rightarrow> Inl err
     | Inr key \<Rightarrow>
         (case getPlacesFromFoursquare_try e location key maxDistance of
            Inl err \<Rightarrow> Inr (PlacesResult [] False)
          | Inr r \<Rightarrow> Inr r))"

section \<open>Text-Generation Client\<close>

text \<open>\<^verbatim>\<open>data.candidates?.[0]?.content?.parts?.[0]?.text\<close>\<close>

definition extract_text :: "gemini_data \<Rightarrow> string option" where
  "extract_text data =
    (case g_candidates data of
       Some (c # cs) \<Rightarrow>
         (case g_content c of
            Some ct \<Rightarrow> (case g_parts ct of Some (p # ps) \<Rightarrow> g_text p | _ \<Rightarrow> None)
          | None \<Rightarrow> None)
     | _ \<Rightarrow> None)"

text \<open>The bracketed part of a text, when the text is not missing or empty.\<close>

definition jsonMatch :: "string option \<Rightarrow> string option" where
  "jsonMatch t = (case t of None \<Rightarrow> None | Some s \<Rightarrow> if s = [] then None else match_brackets s)"

subsection \<open>enhanceWithGemini\<close>

definition moodDescriptions_enhance :: "(string \<times> string) list" where
  "moodDescriptions_enhance =
    [(''coffee'', ''looking for a great coffee shop or cafe''),
     (''quick-bite'', ''needs a quick and satisfying meal''),
     (''healthy'', ''wants healthy, nutritious food options''),
     (''comfort'', ''is craving comfort food''),
     (''date-night'', ''is planning a romantic dinner''),
     (''adventure'', ''wants to try something new and exciting'')]"

text \<open>\<^verbatim>\<open>{ ...place, description: d }\<close>\<close>

definition with_description :: "jsval \<Rightarrow> obj \<Rightarrow> obj" where
  "with_description d place = put ''description'' d place"

text \<open>\<^verbatim>\<open>v.name.toLowerCase()\<close>: a TypeError unless the name is a string.\<close>

definition lower_name :: "env \<Rightarrow> jsval \<Rightarrow> exn + string" where
  "lower_name e v =
    (case get v ''name'' of
       Inl err \<Rightarrow> Inl err
     | Inr (JStr s) \<Rightarrow> Inr (toLowerCase e s)
     | Inr x \<Rightarrow> Inl TypeError)"

text \<open>The test of \<open>descriptions.find\<close>.\<close>

definition name_matches :: "env \<Rightarrow> obj \<Rightarrow> jsval \<Rightarrow> exn + bool" where
  "name_matches e place d =
    (case lower_name e d of
       Inl err \<Rightarrow> Inl err
     | Inr dn \<Rightarrow>
         (case lower_name e (JObj place) of
            Inl err \<Rightarrow> Inl err
          | Inr pn \<Rightarrow> Inr (dn = pn \<or> includes_str pn dn \<or> includes_str dn pn)))"

fun find_description :: "env \<Rightarrow> obj \<Rightarrow> jsval list \<Rightarrow> exn + jsval option" where
  "find_description e place [] = Inr None"
| "find_description e place (d # ds) =
    (case name_matches e place d of
       Inl err \<Rightarrow> Inl err
     | Inr b \<Rightarrow> if b then Inr (Some d) else find_description e place ds)"

text \<open>
  One place merged with the descriptions of the provider:
  \<^verbatim>\<open>aiData?.description || `A great ${mood} spot worth checking out.`\<close>
\<close>

definition merge_description :: "env \<Rightarrow> string \<Rightarrow> jsval \<Rightarrow> obj \<Rightarrow> exn + obj" where
  "merge_description e m descriptions place =
    (case descriptions of
       JArr ds \<Rightarrow>
         (case find_description e place ds of
            Inl err \<Rightarrow> Inl err
          | Inr None \<Rightarrow>
              Inr (with_description (JStr (''A great '' @ m @ '' spot worth checking out.'')) place)
          | Inr (Some aiData) \<Rightarrow>
              (case get aiData ''description'' of
                 Inl err \<Rightarrow> Inl err
               | Inr v \<Rightarrow>
                   Inr (with_description
                     (if truthy v then v
                      else JStr (''A great '' @ m @ '' spot worth checking out.'')) place)))
     | _ \<Rightarrow> Inl TypeError)"

text \<open>
  \<^verbatim>\<open>`- ${p.name} (${p.category || 'restaurant'})`\<close>: the name and the category of a
  place, as strings.
\<close>

definition place_line :: "obj \<Rightarrow> exn + string \<times> string" where
  "place_line p =
    (case to_string (own_prop p ''name'') of
       Inl err \<Rightarrow> Inl err
     | Inr n \<Rightarrow>
         (case to_string (if truthy (own_prop p ''category'') then own_prop p ''category''
                          else JStr ''restaurant'') of
            Inl err \<Rightarrow> Inl err
          | Inr c \<Rightarrow> Inr (n, c)))"

text \<open>
  The prompt, which is built before the \<open>try\<close>: first the lines of the places, then the
  template, which converts the mood to a property key and the location to a string.
  Each conversion may throw.
\<close>

definition enhance_request :: "env \<Rightarrow> obj list \<Rightarrow> jsval \<Rightarrow> jsval \<Rightarrow> exn + gemini_request" where
  "enhance_request e places mood location =
    (case sequence (map place_line places) of
       Inl err \<Rightarrow> Inl err
     | Inr placesInfo \<Rightarrow>
    (case to_string mood of
       Inl err \<Rightarrow> Inl err
     | Inr key \<Rightarrow>
    (case to_string location of
       Inl err \<Rightarrow> Inl err
     | Inr l \<Rightarrow>
         (let q = EnhancePrompt (lookup_or moodDescriptions_enhance key ''is looking for food'')
                    l placesInfo
          in case prompt_error e q of Some err \<Rightarrow> Inl err | None \<Rightarrow> Inr q))))"

text \<open>The body of the \<open>try\<close>, for the mood \<open>m\<close> as a string.\<close>

definition enhanceWithGemini_try ::
  "env \<Rightarrow> gemini_request \<Rightarrow> obj list \<Rightarrow> string \<Rightarrow> exn + obj list" where
  "enhanceWithGemini_try e q places m =
    (case fetch_gemini e q of
       Rejected \<Rightarrow> Inl FetchError
     | Response response \<Rightarrow>
         if \<not> ok response
         then Inr (map (with_description (JStr (''A popular '' @ m @ '' destination.''))) places)
         else
           (case resp_json response of
              None \<Rightarrow> Inl SyntaxError
            | Some data \<Rightarrow>
                (case jsonMatch (extract_text data) of
                   Some t \<Rightarrow>
                     (case JSON_parse t of
                        Inl err \<Rightarrow> Inl err
                      | Inr descriptions \<Rightarrow>
                          sequence (map (merge_description e m descriptions) places))
                 | None \<Rightarrow>
                     Inr (map (with_description (JStr (''A popular '' @ m @ '' destination.'')))
                       places))))"

text \<open>
  The places with the description \<^verbatim>\<open>`A great ${mood} spot in ${location}.`\<close>: the
  template is evaluated for each place, so nothing is converted when there is none.
\<close>

definition great_spots :: "obj list \<Rightarrow> jsval \<Rightarrow> jsval \<Rightarrow> exn + obj list" where
  "great_spots places mood location =
    (if places = [] then Inr []
     else
       (case to_string mood of
          Inl err \<Rightarrow> Inl err
        | Inr m \<Rightarrow>
            (case to_string location of
               Inl err \<Rightarrow> Inl err
             | Inr l \<Rightarrow>
                 Inr (map (with_description (JStr (''A great '' @ m @ '' spot in '' @ l @ ''.'')))
                   places))))"

definition enhanceWithGemini :: "env \<Rightarrow> obj list \<Rightarrow> jsval \<Rightarrow> jsval \<Rightarrow> exn + obj list" where
  "enhanceWithGemini e places mood location =
    (if \<not> configured (GEMINI_API_KEY e) then great_spots places mood location
     else
       (case enhance_request e places mood location of
          Inl err \<Rightarrow> Inl err
        | Inr q \<Rightarrow>
            (case to_string mood of
               Inl err \<Rightarrow> Inl err
             | Inr m \<Rightarrow>
                 (case enhanceWithGemini_try e q places m of
                    Inl err \<Rightarrow> great_spots places mood location
                  | Inr r \<Rightarrow> Inr r))))"

subsection \<open>getGeminiRecommendations\<close>

definition moodDescriptions :: "(string \<times> string) list" where
  "moodDescriptions =
    [(''coffee'', ''looking for a great coffee shop or cafe''),
     (''quick-bite'', ''need a quick and satisfying meal''),
     (''healthy'', ''want healthy, nutritious food options''),
     (''comfort'', ''craving comfort food''),
     (''date-night'', ''planning a romantic dinner''),
     (''adventure'', ''want to try something new and exciting'')]"

text \<open>
  \<open>getMockRecommendations(mood)\<close> for a mood that is any value: the lookup converts it to
  a property key.
\<close>

definition mock_for :: "jsval \<Rightarrow> exn + jsval or_builtin" where
  "mock_for mood =
    (case to_string mood of Inl err \<Rightarrow> Inl err | Inr key \<Rightarrow> Inr (getMockRecommendations key))"

text \<open>
  The prompt, which is built before the \<open>try\<close>: the template converts the location, the
  mood (to a property key), \<open>timeAvailable\<close> and \<open>maxDistance\<close>, in this order, and each
  conversion may throw.
\<close>

definition generate_request ::
  "env \<Rightarrow> jsval \<Rightarrow> jsval \<Rightarrow> jsval \<Rightarrow> jsval \<Rightarrow> exn + gemini_request" where
  "generate_request e location mood timeAvailable maxDistance =
    (case to_string location of
       Inl err \<Rightarrow> Inl err
     | Inr l \<Rightarrow>
    (case to_string mood of
       Inl err \<Rightarrow> Inl err
     | Inr key \<Rightarrow>
    (case to_string timeAvailable of
       Inl err \<Rightarrow> Inl err
     | Inr t \<Rightarrow>
    (case to_string maxDistance of
       Inl err \<Rightarrow> Inl err
     | Inr d \<Rightarrow>
         (let q = GeneratePrompt (lookup_or moodDescriptions key ''looking for food'') l t d
                    (currentTime e)
          in case prompt_error e q of Some err \<Rightarrow> Inl err | None \<Rightarrow> Inr q)))))"

text \<open>The body of the \<open>try\<close>, for the property key that the mood is.\<close>

definition getGeminiRecommendations_try ::
  "env \<Rightarrow> gemini_request \<Rightarrow> string \<Rightarrow> exn + jsval or_builtin" where
  "getGeminiRecommendations_try e q key =
    (case fetch_gemini e q of
       Rejected \<Rightarrow> Inl FetchError
     | Response response \<Rightarrow>
         if \<not> ok response then
           (case resp_text response of
              None \<Rightarrow> Inl FetchError
            | Some errorText \<Rightarrow> Inr (getMockRecommendations key))
         else
           (case resp_json response of
              None \<Rightarrow> Inl SyntaxError
            | Some data \<Rightarrow>
                (case extract_text data of
                   None \<Rightarrow> Inr (getMockRecommendations key)
                 | Some t \<Rightarrow>
                     if t = [] then Inr (getMockRecommendations key)
                     else
                       (case match_brackets t of
                          Some m \<Rightarrow>
                            (case JSON_parse m of
                               Inl err \<Rightarrow> Inl err
                             | Inr v \<Rightarrow> Inr (Value v))
                        | None \<Rightarrow> Inr (getMockRecommendations key)))))"

definition getGeminiRecommendations ::
  "env \<Rightarrow> jsval \<Rightarrow> jsval \<Rightarrow> jsval \<Rightarrow> jsval \<Rightarrow> exn + jsval or_builtin" where
  "getGeminiRecommendations e location mood timeAvailable maxDistance =
    (if \<not> configured (GEMINI_API_KEY e) then mock_for mood
     else
       (case generate_request e location mood timeAvailable maxDistance of
          Inl err \<Rightarrow> Inl err
        | Inr q \<Rightarrow>
            (case to_string mood of
               Inl err \<Rightarrow> Inl err
             | Inr key \<Rightarrow>
                 (case getGeminiRecommendations_try e q key of
                    Inl err \<Rightarrow> Inr (getMockRecommendations key)
                  | Inr r \<Rightarrow> Inr r))))"

section \<open>Recommendation Assembler\<close>

text \<open>
  The event has the method and the body of the HTTP request; the body is \<open>None\<close> when
  the request has none. The response is given with the object that goes into
  \<open>JSON.stringify\<close>; the headers are the same in every response and are left out.
\<close>

record event =
  httpMethod :: string
  event_body :: "string option"

text \<open>
  \<^verbatim>\<open>const { location, mood, timeAvailable, maxDistance } = JSON.parse(event.body)\<close>:
  the four fields are whatever values the body has for them, undefined for a field
  that it has not. The destructuring of null throws, and so does \<open>JSON.parse\<close> of a
  body that is missing or not JSON.
\<close>

record request =
  req_location :: jsval
  req_mood :: jsval
  req_timeAvailable :: jsval
  req_maxDistance :: jsval

definition received :: "event \<Rightarrow> exn + request" where
  "received ev =
    (case event_body ev of
       None \<Rightarrow> Inl SyntaxError
     | Some b \<Rightarrow>
         (case JSON_parse b of
            Inl err \<Rightarrow> Inl err
          | Inr v \<Rightarrow>
              (case sequence (map (get v) [''location'', ''mood'', ''timeAvailable'', ''maxDistance'']) of
                 Inr [l, m, t, d] \<Rightarrow>
                   Inr \<lparr>req_location = l, req_mood = m, req_timeAvailable = t,
                        req_maxDistance = d\<rparr>
               | _ \<Rightarrow> Inl TypeError)))"

datatype response_body = EmptyBody | ErrorBody string | Recommendations envelope

record response =
  statusCode :: nat
  body :: response_body

text \<open>The response of the \<open>catch\<close> of the handler.\<close>

definition failure :: response where
  "failure = \<lparr>statusCode = 500, body = ErrorBody ''Failed to get recommendations''\<rparr>"

definition envelope_of :: "jsval or_builtin \<Rightarrow> string \<Rightarrow> bool \<Rightarrow> envelope" where
  "envelope_of recs src limited =
    \<lparr>recommendations = recs,
     source = src,
     rateLimitReached = limited,
     message =
       (if limited
        then Some ''Live data temporarily unavailable. Showing AI-generated recommendations.''
        else None)\<rparr>"

text \<open>The \<open>return\<close> of the success response: \<open>JSON.stringify\<close> is called inside the \<open>try\<close>.\<close>

definition success :: "env \<Rightarrow> jsval or_builtin \<Rightarrow> string \<Rightarrow> bool \<Rightarrow> exn + response" where
  "success e recs src limited =
    (case stringify_error e (envelope_of recs src limited) of
       Some err \<Rightarrow> Inl err
     | None \<Rightarrow>
         Inr \<lparr>statusCode = 200, body = Recommendations (envelope_of recs src limited)\<rparr>)"

text \<open>The assembly, after the request has been checked.\<close>

definition assemble :: "env \<Rightarrow> jsval \<Rightarrow> jsval \<Rightarrow> jsval \<Rightarrow> jsval \<Rightarrow> exn + response" where
  "assemble e location mood timeAvailable maxDistance =
    (if configured (FOURSQUARE_API_KEY e) then
       (case getPlacesFromFoursquare e location mood maxDistance of
          Inl err \<Rightarrow> Inl err
        | Inr foursquareResult \<Rightarrow>
            if rateLimited foursquareResult then
              (case getGeminiRecommendations e location mood timeAvailable maxDistance of
                 Inl err \<Rightarrow> Inl err
               | Inr recs \<Rightarrow> success e recs ''ai'' True)
            else if 0 < length (places_of foursquareResult) then
              (case enhanceWithGemini e (places_of foursquareResult) mood location of
                 Inl err \<Rightarrow> Inl err
               | Inr recs \<Rightarrow> success e (Value (JArr (map JObj recs))) ''foursquare'' False)
            else
              (case getGeminiRecommendations e location mood timeAvailable maxDistance of
                 Inl err \<Rightarrow> Inl err
               | Inr recs \<Rightarrow> success e recs ''ai'' False))
     else
       (case getGeminiRecommendations e location mood timeAvailable maxDistance of
          Inl err \<Rightarrow> Inl err
        | Inr recs \<Rightarrow> success e recs ''ai'' False))"

definition handler_try :: "env \<Rightarrow> event \<Rightarrow> exn + response" where
  "handler_try e ev =
    (case received ev of
       Inl err \<Rightarrow> Inl err
     | Inr req \<Rightarrow>
         if \<not> truthy (req_location req) \<or> \<not> truthy (req_mood req)
         then Inr \<lparr>statusCode = 400, body = ErrorBody ''Location and mood are required''\<rparr>
         else assemble e (req_location req) (req_mood req)
                (req_timeAvailable req) (req_maxDistance req))"

definition handler :: "env \<Rightarrow> event \<Rightarrow> response" where
  "handler e ev =
    (if httpMethod ev = ''OPTIONS'' then \<lparr>statusCode = 200, body = EmptyBody\<rparr>
     else if httpMethod ev \<noteq> ''POST''
     then \<lparr>statusCode = 405, body = ErrorBody ''Method not allowed''\<rparr>
     else (case handler_try e ev of Inl err \<Rightarrow> failure | Inr r \<Rightarrow> r))"

section \<open>The words of the specification\<close>

text \<open>
  The definitions of this section follow the wording of the specification, not the
  code: they are what the code is compared with.

  The fields of a location that are set and not empty, in the order street, locality,
  region, postcode.
\<close>

definition nonempty_fields :: "fsq_location \<Rightarrow> string list" where
  "nonempty_fields x =
    filter (\<lambda>s. s \<noteq> []) (List.map_filter id [address x, locality x, region x, postcode x])"

text \<open>Address formatting applied to its own result, as idempotence has it.\<close>

definition formatAddress_twice :: "jsval \<Rightarrow> exn + jsval" where
  "formatAddress_twice v = (case formatAddress v of Inl e \<Rightarrow> Inl e | Inr a \<Rightarrow> formatAddress a)"

text \<open>
  The number of a weekday, Sunday being 0, and the entries of a weekly schedule that
  are for a weekday: those whose day is the number of that weekday.
\<close>

definition weekday_index :: "string \<Rightarrow> int option" where
  "weekday_index w =
    map_of [(''Sunday'', 0), (''Monday'', 1), (''Tuesday'', 2), (''Wednesday'', 3),
            (''Thursday'', 4), (''Friday'', 5), (''Saturday'', 6)] w"

definition entry_for :: "string \<Rightarrow> fsq_hours_entry \<Rightarrow> bool" where
  "entry_for w en = (h_day en \<noteq> None \<and> h_day en = weekday_index w)"

text \<open>The weekly schedule of hours: no entry when the provider sent none.\<close>

definition schedule :: "fsq_hours \<Rightarrow> fsq_hours_entry list" where
  "schedule h = (case regular h of None \<Rightarrow> [] | Some es \<Rightarrow> es)"

text \<open>
  The well-formed JSON arrays that a text contains: the parts of the text, one for each
  place where it occurs, that go from a \<open>[\<close> to a \<open>]\<close> and are the JSON text of an array.
\<close>

definition substrings :: "string \<Rightarrow> string list" where
  "substrings s =
    concat (map (\<lambda>i. map (\<lambda>n. take n (drop i s)) [1..<Suc (length s - i)]) [0..<length s])"

definition is_array_text :: "string \<Rightarrow> bool" where
  "is_array_text s =
    (if s \<noteq> [] \<and> hd s = CHR ''['' \<and> last s = CHR '']''
     then (case JSON_parse s of Inr (JArr xs) \<Rightarrow> True | _ \<Rightarrow> False)
     else False)"

definition array_texts :: "string \<Rightarrow> string list" where
  "array_texts text = filter is_array_text (substrings text)"

text \<open>
  The text that the text provider returns for the generation request of a request, when
  the prompt can be built and the provider answers with a success status and a readable
  body.
\<close>

definition generated_text :: "env \<Rightarrow> request \<Rightarrow> string option" where
  "generated_text e req =
    (case generate_request e (req_location req) (req_mood req)
            (req_timeAvailable req) (req_maxDistance req) of
       Inl err \<Rightarrow> None
     | Inr q \<Rightarrow>
         (case fetch_gemini e q of
            Rejected \<Rightarrow> None
          | Response r \<Rightarrow>
              if ok r then (case resp_json r of None \<Rightarrow> None | Some data \<Rightarrow> extract_text data)
              else None))"

section \<open>Scenarios\<close>

text \<open>
  Concrete environments and requests, on which the theorems below are instantiated.

  The engine of the scenarios: it lower-cases the letters of ASCII, which is what
  \<open>toLowerCase\<close> does on a text of ASCII; it builds every prompt; and its
  \<open>JSON.stringify\<close> fails when a property of a recommendation is a string that alone
  has the length of the longest string of the engine (536870888 code units in V8), so
  that the text of the body would be longer, and not otherwise.
\<close>

definition ascii_lower :: "string \<Rightarrow> string" where
  "ascii_lower s =
    map (\<lambda>c. let n = (of_char c :: nat) in if 65 \<le> n \<and> n \<le> 90 then char_of (n + 32) else c) s"

definition long_strings :: "jsval \<Rightarrow> bool" where
  "long_strings v =
    (case v of
       JObj ps \<Rightarrow>
         list_ex (\<lambda>(k, x). case x of
                             JStr s \<Rightarrow> max_string_length \<le> int (length (units s))
                           | _ \<Rightarrow> False) ps
     | _ \<Rightarrow> False)"

definition limited_stringify :: "envelope \<Rightarrow> exn option" where
  "limited_stringify env =
    (case recommendations env of
       Value (JArr items) \<Rightarrow> if list_ex long_strings items then Some RangeError else None
     | _ \<Rightarrow> None)"

text \<open>\<open>env_offline\<close> has no credential, and every fetch is rejected.\<close>

definition env_offline :: env where
  "env_offline =
    \<lparr>FOURSQUARE_API_KEY = None, GEMINI_API_KEY = None, today = ''Monday'',
     currentTime = ''Monday 9:00 AM'', fetch_search = (\<lambda>q. Rejected),
     fetch_detail = (\<lambda>i u. Rejected), fetch_gemini = (\<lambda>q. Rejected),
     toLowerCase = ascii_lower, prompt_error = (\<lambda>q. None),
     stringify_error = limited_stringify\<rparr>"

text \<open>A search response with the given status and no readable JSON.\<close>

definition search_status :: "nat \<Rightarrow> fsq_search fetched" where
  "search_status n = Response \<lparr>status = n, resp_text = Some [], resp_json = None\<rparr>"

text \<open>A successful search response with the given results.\<close>

definition search_found :: "fsq_place list \<Rightarrow> fsq_search fetched" where
  "search_found ps =
    Response \<lparr>status = 200, resp_text = Some [], resp_json = Some \<lparr>results = Some ps\<rparr>\<rparr>"

definition place_named :: "string \<Rightarrow> fsq_place" where
  "place_named n =
    \<lparr>fsq_id = Some n, name = Some n, place_location = None, distance = Some 120,
     rating = None, price = None, place_hours = None, categories = None\<rparr>"

text \<open>
  The places provider finds the place \<open>A\<close>, and its details have the given price; the
  place that Places Lookup makes of them.
\<close>

definition env_priced :: "int \<Rightarrow> env" where
  "env_priced n =
    env_offline\<lparr>FOURSQUARE_API_KEY := Some ''key'',
      fetch_search := (\<lambda>q. search_found [place_named ''A'']),
      fetch_detail := (\<lambda>i u. Response \<lparr>status = 200, resp_text = Some [],
        resp_json = Some ((place_named ''A'')\<lparr>price := Some n\<rparr>)\<rparr>)\<rparr>"

definition priced_place :: "int \<Rightarrow> obj" where
  "priced_place n =
    [(''name'', JStr ''A''), (''address'', JNull), (''distance'', JStr ''120 meters''),
     (''rating'', JNull), (''price'', JStr (replicate (nat n) CHR ''$'')),
     (''hours'', JNull), (''category'', JNull)]"

text \<open>A successful reply of the text provider with the given text.\<close>

definition reply_text :: "string \<Rightarrow> gemini_data fetched" where
  "reply_text t =
    Response \<lparr>status = 200, resp_text = Some t,
      resp_json = Some \<lparr>g_candidates =
        Some [\<lparr>g_content = Some \<lparr>g_parts = Some [\<lparr>g_text = Some t\<rparr>]\<rparr>\<rparr>]\<rparr>\<rparr>"

definition env_generate :: "string \<Rightarrow> env" where
  "env_generate t =
    env_offline\<lparr>GEMINI_API_KEY := Some ''key'', fetch_gemini := (\<lambda>q. reply_text t)\<rparr>"

text \<open>
  A POST request with the body
  \<^verbatim>\<open>{"location": "Seattle, WA", "mood": "m", "timeAvailable": t, "maxDistance": 1000}\<close>,
  for a mood \<open>m\<close> and the JSON text \<open>t\<close>; \<open>post\<close> has 30 minutes as the time available.
\<close>

definition post_with :: "string \<Rightarrow> string \<Rightarrow> event" where
  \<open>post_with mood t =
    \<lparr>httpMethod = ''POST'',
     event_body = Some (''{"location": "Seattle, WA", "mood": "'' @ mood
       @ ''", "timeAvailable": '' @ t @ '', "maxDistance": 1000}'')\<rparr>\<close>

definition post :: "string \<Rightarrow> event" where
  "post mood = post_with mood ''30''"

text \<open>
  An object that has no conversion to a string: the value of the JSON text
  \<^verbatim>\<open>{"toString": 1}\<close>, whose \<open>toString\<close> is not a function.
\<close>

definition unconvertible :: jsval where
  "unconvertible = JObj [(''toString'', JNum (Decimal 1 0))]"

text \<open>
  Hours with no display text, whose schedule has an entry for Tuesday and two for
  Monday.
\<close>

definition hours_no_display :: fsq_hours where
  "hours_no_display =
    \<lparr>display = None, open_now = Some True,
     regular = Some
       [\<lparr>h_day = Some 2, h_open = Some ''1000'', h_close = Some ''1600''\<rparr>,
        \<lparr>h_day = Some 1, h_open = Some ''0900'', h_close = Some ''1700''\<rparr>,
        \<lparr>h_day = Some 1, h_open = Some ''1800'', h_close = Some ''2200''\<rparr>]\<rparr>"

section \<open>Properties\<close>

subsection \<open>Sequences of results\<close>

lemma sequence_map_eq:
  "sequence (map f xs) = Inr ys \<Longrightarrow> map f xs = map Inr ys"
  by (induction xs arbitrary: ys) (auto split: sum.splits)

lemma sequence_map_total:
  "(\<And>x. x \<in> set xs \<Longrightarrow> \<exists>y. f x = Inr y) \<Longrightarrow> \<exists>ys. sequence (map f xs) = Inr ys"
proof (induction xs)
  case Nil
  then show ?case by simp
next
  case (Cons x xs)
  then obtain y where "f x = Inr y" by auto
  moreover from Cons obtain ys where "sequence (map f xs) = Inr ys" by auto
  ultimately show ?case by simp
qed

lemma sequence_map_preserves:
  assumes "sequence (map f xs) = Inr ys" and "\<And>x y. f x = Inr y \<Longrightarrow> g y = h x"
  shows "map g ys = map h xs"
  using assms(1)
proof (induction xs arbitrary: ys)
  case Nil
  then show ?case by simp
next
  case (Cons x xs)
  then show ?case by (auto split: sum.splits simp add: assms(2))
qed

subsection \<open>Mock Recommendation Table\<close>

lemma mockData_pairs: "(k, v) \<in> set mockData \<Longrightarrow> \<exists>a b. v = JArr [a, b]"
  by (auto simp add: mockData_def quick_bite_def)

text \<open>
  What the table does return: the two literals of a key of the table, the
  \<open>quick-bite\<close> list for a mood that is no property of the table at all, and the
  inherited value for the name of an inherited property.
\<close>

lemma getMockRecommendations_cases:
  "(mood \<in> set object_prototype_names \<and> getMockRecommendations mood = Builtin mood) \<or>
   (\<exists>a b. getMockRecommendations mood = Value (JArr [a, b]))"
proof (cases "map_of mockData mood")
  case None
  then show ?thesis
    by (simp add: getMockRecommendations_def lookup_or_def quick_bite_def)
next
  case (Some v)
  then have "(mood, v) \<in> set mockData" by (rule map_of_SomeD)
  then obtain a b where "v = JArr [a, b]" using mockData_pairs by blast
  with Some show ?thesis by (simp add: getMockRecommendations_def lookup_or_def)
qed

lemma getMockRecommendations_supported:
  "mood \<in> set supported_moods \<Longrightarrow> \<exists>a b. getMockRecommendations mood = Value (JArr [a, b])"
  by (auto simp add: supported_moods_def getMockRecommendations_def lookup_or_def mockData_def
      quick_bite_def)

lemma getMockRecommendations_default:
  "map_of mockData mood = None \<Longrightarrow> mood \<notin> set object_prototype_names \<Longrightarrow>
     getMockRecommendations mood = Value quick_bite"
  by (simp add: getMockRecommendations_def lookup_or_def)

text \<open>
  Claim C8. The claim: the table is a pure lookup that returns the two literals of a
  supported mood and the \<open>quick-bite\<close> list for every other mood string. The code looks
  the mood up with \<^verbatim>\<open>mockData[mood] || mockData['quick-bite']\<close>, and the mood
  \<open>constructor\<close> is a string that is no key of the table but names a property the table
  inherits: the lookup gives that built-in function, which is truthy, so the result is
  not the \<open>quick-bite\<close> list.
\<close>

theorem getMockRecommendations_inherited_key:
  "getMockRecommendations ''constructor'' = Builtin ''constructor'' \<and>
   getMockRecommendations ''constructor'' \<noteq> getMockRecommendations ''quick-bite''"
  by (simp add: getMockRecommendations_def lookup_or_def mockData_def object_prototype_names_def)

subsection \<open>Address formatting\<close>

lemma join_Nil_iff: "(\<forall>s \<in> set ss. s \<noteq> []) \<Longrightarrow> join sep ss = [] \<longleftrightarrow> ss = []"
  by (induction sep ss rule: join.induct) auto

lemma location_fields:
  "sequence (map (get (location_val (Some x))) [''address'', ''locality'', ''region'', ''postcode''])
     = Inr (map opt_str [address x, locality x, region x, postcode x])"
  by (cases "address x"; cases "locality x"; cases "region x"; cases "postcode x")
    (simp_all add: location_val_def own_prop_def opt_str_def List.map_filter_simps)

lemma truthy_opt_str:
  "filter truthy (map opt_str fs) = map JStr (filter (\<lambda>s. s \<noteq> []) (List.map_filter id fs))"
  by (induction fs) (auto simp add: opt_str_def List.map_filter_simps split: option.splits)

lemma to_string_strs: "sequence (map (to_string \<circ> JStr) ss) = Inr ss"
  by (induction ss) simp_all

lemma formatAddress_fields:
  assumes "truthy location"
    and "sequence (map (get location) [''address'', ''locality'', ''region'', ''postcode''])
      = Inr (map opt_str fs)"
    and "ss = filter (\<lambda>s. s \<noteq> []) (List.map_filter id fs)"
  shows "formatAddress location = Inr (if ss = [] then JNull else JStr (join '', '' ss))"
proof -
  have j: "join '', '' ss = [] \<longleftrightarrow> ss = []"
    by (rule join_Nil_iff) (simp add: assms(3))
  have "formatAddress location =
      (case sequence (map to_string (filter truthy (map opt_str fs))) of
         Inl e \<Rightarrow> Inl e
       | Inr parts \<Rightarrow> (let s = join '', '' parts in Inr (if s = [] then JNull else JStr s)))"
    unfolding formatAddress_def using assms(1)
    by (simp only: assms(2) if_False not_True_eq_False sum.case)
  also have "\<dots> = Inr (if join '', '' ss = [] then JNull else JStr (join '', '' ss))"
    by (simp only: truthy_opt_str map_map to_string_strs sum.case Let_def assms(3))
  finally show ?thesis by (simp only: j)
qed

lemma formatAddress_location:
  "formatAddress (location_val (Some x)) =
     Inr (if nonempty_fields x = [] then JNull else JStr (join '', '' (nonempty_fields x)))"
proof (rule formatAddress_fields)
  show "truthy (location_val (Some x))" by (simp add: location_val_def)
  show "sequence (map (get (location_val (Some x))) [''address'', ''locality'', ''region'', ''postcode''])
      = Inr (map opt_str [address x, locality x, region x, postcode x])"
    by (rule location_fields)
  show "nonempty_fields x
      = filter (\<lambda>s. s \<noteq> []) (List.map_filter id [address x, locality x, region x, postcode x])"
    by (rule nonempty_fields_def)
qed

lemma formatAddress_missing: "formatAddress (location_val None) = Inr JNull"
  by (simp add: formatAddress_def location_val_def)

lemma formatAddress_of_result:
  "formatAddress JNull = Inr JNull" "formatAddress (JStr s) = Inr JNull"
  by (simp_all add: formatAddress_def)

lemma formatAddress_typed: "\<exists>a. formatAddress (location_val l) = Inr a"
  by (cases l) (simp_all add: formatAddress_missing formatAddress_location)

text \<open>
  Claim C7, as the code has it. The result for a location is its non-empty fields among
  street, locality, region and postcode joined with \<open>, \<close>; it is null for a location with
  no field set, and never the empty string. Address formatting applied to its own result
  (a string or null) gives null: the function reads fields of a location object, which a
  string has not, so it is not idempotent.
\<close>

theorem formatAddress_join:
  "formatAddress (location_val (Some x)) =
     Inr (if nonempty_fields x = [] then JNull else JStr (join '', '' (nonempty_fields x))) \<and>
   formatAddress (location_val
     (Some \<lparr>address = None, locality = None, region = None, postcode = None\<rparr>)) = Inr JNull \<and>
   formatAddress (location_val l) \<noteq> Inr (JStr []) \<and>
   formatAddress_twice (location_val l) = Inr JNull"
proof -
  have a: "formatAddress (location_val l) \<noteq> Inr (JStr [])"
  proof (cases l)
    case None
    then show ?thesis by (simp add: formatAddress_missing)
  next
    case (Some y)
    have "join '', '' (nonempty_fields y) = [] \<longleftrightarrow> nonempty_fields y = []"
      by (rule join_Nil_iff) (simp add: nonempty_fields_def)
    with Some show ?thesis by (simp add: formatAddress_location)
  qed
  have b: "formatAddress_twice (location_val l) = Inr JNull"
    by (cases l) (simp_all add: formatAddress_twice_def formatAddress_missing
        formatAddress_location formatAddress_of_result)
  show ?thesis using a b
    by (simp add: formatAddress_location nonempty_fields_def List.map_filter_simps)
qed

theorem formatAddress_join_witness:
  "formatAddress (location_val
     (Some \<lparr>address = Some ''1 Main St'', locality = Some ''Seattle'', region = Some [],
            postcode = None\<rparr>)) = Inr (JStr ''1 Main St, Seattle'')"
  using formatAddress_join [of "\<lparr>address = Some ''1 Main St'', locality = Some ''Seattle'',
      region = Some [], postcode = None\<rparr>" None]
  by (simp add: nonempty_fields_def List.map_filter_simps)

text \<open>
  Claim C7, as the specification states it, fails: for the location whose only field is
  the street \<open>1 Main St\<close>, address formatting gives \<open>1 Main St\<close>, and address formatting
  of that string gives null.
\<close>

theorem formatAddress_not_idempotent:
  "formatAddress_twice (location_val
     (Some \<lparr>address = Some ''1 Main St'', locality = None, region = None, postcode = None\<rparr>))
   \<noteq> formatAddress (location_val
     (Some \<lparr>address = Some ''1 Main St'', locality = None, region = None, postcode = None\<rparr>))"
  by (simp add: formatAddress_twice_def formatAddress_location formatAddress_of_result
      nonempty_fields_def List.map_filter_simps)

subsection \<open>Hours formatting\<close>

text \<open>
  \<^verbatim>\<open>days[h.day] === today\<close> holds of the entries for today: those whose day is the
  number of today's weekday.
\<close>

lemma weekday_index_Some:
  "weekday_index w = Some i \<Longrightarrow> 0 \<le> i \<and> i < 7 \<and> days ! nat i = w"
  by (simp add: weekday_index_def days_def split: if_splits)

lemma weekday_index_days:
  "0 \<le> i \<Longrightarrow> i < 7 \<Longrightarrow> weekday_index (days ! nat i) = Some i"
proof -
  assume "0 \<le> i" and "i < 7"
  then have "i = 0 \<or> i = 1 \<or> i = 2 \<or> i = 3 \<or> i = 4 \<or> i = 5 \<or> i = 6" by arith
  then show ?thesis
    by (elim disjE) (simp_all add: weekday_index_def days_def)
qed

lemma day_name_index: "day_name d = Some w \<longleftrightarrow> d \<noteq> None \<and> d = weekday_index w"
proof (cases d)
  case None
  then show ?thesis by (simp add: day_name_def)
next
  case (Some i)
  show ?thesis
  proof
    assume "day_name d = Some w"
    with Some have "0 \<le> i \<and> i < 7" and "days ! nat i = w"
      by (simp_all add: day_name_def split: if_splits)
    with weekday_index_days [of i] Some show "d \<noteq> None \<and> d = weekday_index w" by simp
  next
    assume "d \<noteq> None \<and> d = weekday_index w"
    with Some have "weekday_index w = Some i" by simp
    from weekday_index_Some [OF this] Some show "day_name d = Some w"
      by (simp add: day_name_def)
  qed
qed
lemma todayHours_entry_for:
  "todayHours w h = List.find (entry_for w) (schedule h)"
proof -
  have "(\<lambda>en. day_name (h_day en) = Some w) = entry_for w"
    by (rule ext) (simp add: day_name_index entry_for_def)
  then show ?thesis
    by (simp add: todayHours_def schedule_def split: option.splits)
qed

text \<open>
  Claim C6, as the code has it. Hours that are missing, or have no display text, give
  null. For hours with a display text: if the weekly schedule has an entry whose day is
  the number of today's weekday, the result is \<open>Open {open}-{close}\<close> for the first
  such entry of the schedule; if it has none, the result is \<open>Open now\<close> or
  \<open>Check hours\<close> according to the open flag.
\<close>

theorem formatHours_today:
  "formatHours w None = JNull \<and>
   (\<not> truthy (opt_str (display h)) \<longrightarrow> formatHours w (Some h) = JNull) \<and>
   (truthy (opt_str (display h)) \<and> k < length (schedule h) \<and>
    entry_for w (schedule h ! k) \<and> (\<forall>j < k. \<not> entry_for w (schedule h ! j)) \<longrightarrow>
      formatHours w (Some h)
        = JStr (''Open '' @ template_str (h_open (schedule h ! k)) @ ''-''
                 @ template_str (h_close (schedule h ! k)))) \<and>
   (truthy (opt_str (display h)) \<and> (\<forall>en \<in> set (schedule h). \<not> entry_for w en) \<longrightarrow>
      formatHours w (Some h)
        = JStr (if open_now h = Some True then ''Open now'' else ''Check hours''))"
proof -
  have first: "List.find (entry_for w) (schedule h) = Some (schedule h ! k)"
    if "k < length (schedule h)" and "entry_for w (schedule h ! k)"
      and "\<forall>j < k. \<not> entry_for w (schedule h ! j)"
    using that by (auto simp add: find_Some_iff)
  have none: "List.find (entry_for w) (schedule h) = None"
    if "\<forall>en \<in> set (schedule h). \<not> entry_for w en"
    using that by (simp add: find_None_iff)
  show ?thesis
    using first none by (auto simp add: formatHours_def todayHours_entry_for)
qed

theorem formatHours_today_witness:
  "formatHours ''Monday'' (Some (hours_no_display\<lparr>display := Some ''Mon 9-5''\<rparr>))
     = JStr ''Open 0900-1700'' \<and>
   formatHours ''Sunday'' (Some (hours_no_display\<lparr>display := Some ''Mon 9-5''\<rparr>))
     = JStr ''Open now'' \<and>
   formatHours ''Monday'' (Some hours_no_display) = JNull"
proof -
  let ?h = "hours_no_display\<lparr>display := Some ''Mon 9-5''\<rparr>"
  have a: "truthy (opt_str (display ?h))" "\<not> truthy (opt_str (display hours_no_display))"
    by (simp_all add: hours_no_display_def opt_str_def)
  have s: "schedule ?h =
      [\<lparr>h_day = Some 2, h_open = Some ''1000'', h_close = Some ''1600''\<rparr>,
       \<lparr>h_day = Some 1, h_open = Some ''0900'', h_close = Some ''1700''\<rparr>,
       \<lparr>h_day = Some 1, h_open = Some ''1800'', h_close = Some ''2200''\<rparr>]"
    by (simp add: hours_no_display_def schedule_def)
  have b: "(1::nat) < length (schedule ?h)" "entry_for ''Monday'' (schedule ?h ! 1)"
    "\<forall>j < (1::nat). \<not> entry_for ''Monday'' (schedule ?h ! j)"
    by (simp_all add: s entry_for_def weekday_index_def)
  have c: "\<forall>en \<in> set (schedule ?h). \<not> entry_for ''Sunday'' en"
    by (simp add: s entry_for_def weekday_index_def)
  have d: "open_now ?h = Some True" by (simp add: hours_no_display_def)
  show ?thesis
    using a b c d formatHours_today [of "''Monday''" ?h 1]
      formatHours_today [of "''Sunday''" ?h 1]
      formatHours_today [of "''Monday''" hours_no_display 1]
    by (simp add: s template_str_def)
qed

text \<open>
  Claim C6, as the specification states it, fails: on a Monday, hours whose weekly
  schedule has entries for Monday, and which have no display text, are not formatted as
  \<open>Open 0900-1700\<close>; the result is null.
\<close>

theorem formatHours_needs_display:
  "entry_for ''Monday'' \<lparr>h_day = Some 1, h_open = Some ''0900'', h_close = Some ''1700''\<rparr> \<and>
   \<lparr>h_day = Some 1, h_open = Some ''0900'', h_close = Some ''1700''\<rparr>
     \<in> set (schedule hours_no_display) \<and>
   formatHours ''Monday'' (Some hours_no_display) = JNull \<and>
   formatHours ''Monday'' (Some hours_no_display) \<noteq> JStr ''Open 0900-1700''"
  by (simp add: hours_no_display_def schedule_def entry_for_def weekday_index_def
      formatHours_def opt_str_def)

subsection \<open>Places Lookup\<close>

text \<open>
  The places of the provider have the fields of its schema, so the coarse place of a
  search result is always built.
\<close>

lemma coarse_place_total: "\<exists>p. coarse_place place = Inr p"
  using formatAddress_typed [of "place_location place"] by (auto simp add: coarse_place_def)

lemma place_details_total: "\<exists>p. place_details e i place = Inr p"
  using coarse_place_total [of place]
  by (auto simp add: place_details_def split: sum.splits)

lemma ok_not_limited: "ok r \<Longrightarrow> status r \<noteq> 429 \<and> status r \<noteq> 402"
  by (auto simp add: ok_def)

lemma getPlaces_found:
  assumes "to_string mood = Inr key"
    and "search_request_of location key maxDistance = Inr q"
    and "fetch_search e q = Response r"
    and "ok r" and "resp_json r = Some searchData"
    and "rs = (case results searchData of None \<Rightarrow> [] | Some xs \<Rightarrow> xs)"
  shows "\<exists>ps. getPlacesFromFoursquare e location mood maxDistance = Inr (PlacesResult ps False) \<and>
      map Inr ps = map (\<lambda>(i, place). place_details e i place) (enumerate 0 (take 3 rs))"
proof -
  let ?f = "\<lambda>(i, place). place_details e i place"
  have "\<exists>ps. sequence (map ?f (enumerate 0 (take 3 rs))) = Inr ps"
    by (rule sequence_map_total) (auto simp add: place_details_total)
  then obtain ps where ps: "sequence (map ?f (enumerate 0 (take 3 rs))) = Inr ps" ..
  have "getPlacesFromFoursquare_try e location key maxDistance = Inr (PlacesResult ps False)"
    using assms(2,3,4,5) ok_not_limited [OF assms(4)] ps
    by (simp add: getPlacesFromFoursquare_try_def assms(6) [symmetric])
  then have "getPlacesFromFoursquare e location mood maxDistance = Inr (PlacesResult ps False)"
    using assms(1) by (simp add: getPlacesFromFoursquare_def)
  with sequence_map_eq [OF ps] show ?thesis by auto
qed

text \<open>The search request of a mood and a location that are strings of ASCII letters.\<close>

lemma search_request_coffee:
  "search_request_of (JStr ''Seattle, WA'') ''coffee'' maxDistance =
     Inr \<lparr>q_query = Value ''coffee'', q_near = ''Seattle%2C%20WA'',
          q_categories = Value ''13035'', q_limit = 5, q_sort = ''RELEVANCE'',
          q_open_now = True\<rparr>"
  by code_simp

text \<open>
  Claim C4, as the code has it. The mood is converted to a property key before the
  \<open>try\<close>: a mood that has no such conversion is an exception of the function. For
  every other mood: a search response with status 429 or 402 gives no places and
  \<open>rateLimited = true\<close>; any other status outside 200..299 gives no places and
  \<open>rateLimited = false\<close>; an exception of the search (the URL cannot be built, the
  fetch is rejected, the body of the response cannot be read), and any other exception
  that leaves the body of the \<open>try\<close>, gives no places and \<open>rateLimited = false\<close>;
  and the function returns a result, not an exception. An exception raised while the
  details of one place are fetched and formatted is caught for that place, which is
  returned with its coarse fields.
\<close>

theorem places_lookup_exceptions:
  "(to_string mood = Inl err \<longrightarrow>
      getPlacesFromFoursquare e location mood maxDistance = Inl err) \<and>
   (to_string mood = Inr key \<longrightarrow>
      (search_request_of location key maxDistance = Inr q \<and> fetch_search e q = Response r \<and>
         (status r = 429 \<or> status r = 402) \<longrightarrow>
         getPlacesFromFoursquare e location mood maxDistance = Inr (PlacesResult [] True)) \<and>
      (search_request_of location key maxDistance = Inr q \<and> fetch_search e q = Response r \<and>
         status r \<noteq> 429 \<and> status r \<noteq> 402 \<and> \<not> ok r \<longrightarrow>
         getPlacesFromFoursquare e location mood maxDistance = Inr (PlacesResult [] False)) \<and>
      (search_request_of location key maxDistance = Inl err \<longrightarrow>
         getPlacesFromFoursquare e location mood maxDistance = Inr (PlacesResult [] False)) \<and>
      (search_request_of location key maxDistance = Inr q \<and> fetch_search e q = Rejected \<longrightarrow>
         getPlacesFromFoursquare e location mood maxDistance = Inr (PlacesResult [] False)) \<and>
      (search_request_of location key maxDistance = Inr q \<and> fetch_search e q = Response r \<and>
         ok r \<and> resp_json r = None \<longrightarrow>
         getPlacesFromFoursquare e location mood maxDistance = Inr (PlacesResult [] False)) \<and>
      (getPlacesFromFoursquare_try e location key maxDistance = Inl err \<longrightarrow>
         getPlacesFromFoursquare e location mood maxDistance = Inr (PlacesResult [] False)) \<and>
      (\<exists>res. getPlacesFromFoursquare e location mood maxDistance = Inr res)) \<and>
   (place_details_try e i place = Inl err \<longrightarrow>
      (\<exists>p. coarse_place place = Inr p \<and> place_details e i place = Inr p))"
proof -
  have a: "place_details_try e i place = Inl err \<longrightarrow>
      (\<exists>p. coarse_place place = Inr p \<and> place_details e i place = Inr p)"
    using coarse_place_total [of place] by (auto simp add: place_details_def)
  have b: "getPlacesFromFoursquare e location mood maxDistance = Inr (PlacesResult [] False)"
    if "to_string mood = Inr key" and "search_request_of location key maxDistance = Inr q"
      and "fetch_search e q = Response r" and "ok r" and "resp_json r = None"
    using that ok_not_limited [of r]
    by (simp add: getPlacesFromFoursquare_def getPlacesFromFoursquare_try_def)
  have c: "getPlacesFromFoursquare e location mood maxDistance = Inr (PlacesResult [] False)"
    if "to_string mood = Inr key" and "search_request_of location key maxDistance = Inr q"
      and "fetch_search e q = Response r" and "status r \<noteq> 429" and "status r \<noteq> 402"
      and "\<not> ok r"
    using that
    by (simp add: getPlacesFromFoursquare_def getPlacesFromFoursquare_try_def
        split: option.splits)
  have d: "\<exists>res. getPlacesFromFoursquare e location mood maxDistance = Inr res"
    if "to_string mood = Inr key"
    using that by (simp add: getPlacesFromFoursquare_def split: sum.splits)
  show ?thesis
    using a b c d
    by (simp add: getPlacesFromFoursquare_def getPlacesFromFoursquare_try_def)
qed

theorem places_lookup_exceptions_witness:
  "getPlacesFromFoursquare (env_offline\<lparr>fetch_search := (\<lambda>q. search_status 429)\<rparr>)
      (JStr ''Seattle, WA'') (JStr ''coffee'') JUndefined = Inr (PlacesResult [] True) \<and>
   getPlacesFromFoursquare (env_offline\<lparr>fetch_search := (\<lambda>q. search_status 500)\<rparr>)
      (JStr ''Seattle, WA'') (JStr ''coffee'') JUndefined = Inr (PlacesResult [] False) \<and>
   getPlacesFromFoursquare (env_offline\<lparr>fetch_search := (\<lambda>q. search_status 200)\<rparr>)
      (JStr ''Seattle, WA'') (JStr ''coffee'') JUndefined = Inr (PlacesResult [] False) \<and>
   getPlacesFromFoursquare_try env_offline (JStr ''Seattle, WA'') ''coffee'' JUndefined
     = Inl FetchError \<and>
   getPlacesFromFoursquare env_offline (JStr ''Seattle, WA'') (JStr ''coffee'') JUndefined
     = Inr (PlacesResult [] False) \<and>
   getPlacesFromFoursquare env_offline unconvertible (JStr ''coffee'') JUndefined
     = Inr (PlacesResult [] False) \<and>
   getPlacesFromFoursquare env_offline (JStr ''Seattle, WA'') unconvertible JUndefined
     = Inl TypeError \<and>
   place_details env_offline 0 (place_named ''A'')
     = Inr [(''name'', JStr ''A''), (''address'', JNull), (''distance'', JStr ''120 meters'')]"
proof -
  let ?a = "env_offline\<lparr>fetch_search := (\<lambda>q. search_status 429)\<rparr>"
  let ?b = "env_offline\<lparr>fetch_search := (\<lambda>q. search_status 500)\<rparr>"
  let ?c = "env_offline\<lparr>fetch_search := (\<lambda>q. search_status 200)\<rparr>"
  let ?r = "\<lambda>n. \<lparr>status = n, resp_text = Some [], resp_json = None :: fsq_search option\<rparr>"
  let ?q = "\<lparr>q_query = Value ''coffee'', q_near = ''Seattle%2C%20WA'',
          q_categories = Value ''13035'', q_limit = 5, q_sort = ''RELEVANCE'',
          q_open_now = True\<rparr>"
  let ?l = "JStr ''Seattle, WA''"
  have k: "to_string (JStr ''coffee'') = Inr ''coffee''" "to_string unconvertible = Inl TypeError"
    by (simp_all add: unconvertible_def)
  have s: "search_request_of ?l ''coffee'' JUndefined = Inr ?q"
    "search_request_of unconvertible ''coffee'' JUndefined = Inl TypeError"
    by (simp add: search_request_coffee) code_simp
  have a: "fetch_search ?a q = Response (?r 429)" "fetch_search ?b q = Response (?r 500)"
    "fetch_search ?c q = Response (?r 200)" "fetch_search env_offline q = Rejected" for q
    by (simp_all add: search_status_def env_offline_def)
  have b: "getPlacesFromFoursquare_try env_offline ?l ''coffee'' JUndefined = Inl FetchError"
    by (simp add: getPlacesFromFoursquare_try_def search_request_coffee env_offline_def)
  have c: "place_details_try env_offline 0 (place_named ''A'') = Inl FetchError"
    by (simp add: place_details_try_def env_offline_def)
  have d: "coarse_place (place_named ''A'')
      = Inr [(''name'', JStr ''A''), (''address'', JNull), (''distance'', JStr ''120 meters'')]"
    by code_simp
  show ?thesis
    using k s a b c d
      places_lookup_exceptions [of "JStr ''coffee''" FetchError ?a ?l JUndefined "''coffee''"
        ?q "?r 429" 0 "place_named ''A''"]
      places_lookup_exceptions [of "JStr ''coffee''" FetchError ?b ?l JUndefined "''coffee''"
        ?q "?r 500" 0 "place_named ''A''"]
      places_lookup_exceptions [of "JStr ''coffee''" FetchError ?c ?l JUndefined "''coffee''"
        ?q "?r 200" 0 "place_named ''A''"]
      places_lookup_exceptions [of "JStr ''coffee''" FetchError env_offline ?l JUndefined
        "''coffee''" ?q "?r 500" 0 "place_named ''A''"]
      places_lookup_exceptions [of "JStr ''coffee''" TypeError env_offline unconvertible
        JUndefined "''coffee''" ?q "?r 500" 0 "place_named ''A''"]
      places_lookup_exceptions [of unconvertible TypeError env_offline ?l JUndefined
        "''coffee''" ?q "?r 500" 0 "place_named ''A''"]
    by (simp add: ok_def)
qed

text \<open>
  Claim C4, as the specification states it, fails, in two ways. When the search finds
  one place and the fetch of its details is rejected, an exception is raised inside the
  component, and the result is not \<open>{places: [], rateLimited: false}\<close> but the place
  with its coarse fields. And for the mood \<^verbatim>\<open>{"toString": 1}\<close>, which the handler
  reads from the body and lets through, the lookup in the tables of the moods throws
  before the \<open>try\<close>: the exception goes to the caller.
\<close>

theorem places_lookup_detail_exception:
  \<open>place_details_try (env_offline\<lparr>fetch_search := (\<lambda>q. search_found [place_named ''A''])\<rparr>)
      0 (place_named ''A'') = Inl FetchError \<and>
   getPlacesFromFoursquare (env_offline\<lparr>fetch_search := (\<lambda>q. search_found [place_named ''A''])\<rparr>)
      (JStr ''Seattle, WA'') (JStr ''coffee'') JUndefined
     = Inr (PlacesResult
         [[(''name'', JStr ''A''), (''address'', JNull), (''distance'', JStr ''120 meters'')]]
         False) \<and>
   getPlacesFromFoursquare (env_offline\<lparr>fetch_search := (\<lambda>q. search_found [place_named ''A''])\<rparr>)
      (JStr ''Seattle, WA'') (JStr ''coffee'') JUndefined \<noteq> Inr (PlacesResult [] False) \<and>
   received \<lparr>httpMethod = ''POST'',
       event_body = Some ''{"location": "Seattle, WA", "mood": {"toString": 1}}''\<rparr>
     = Inr \<lparr>req_location = JStr ''Seattle, WA'', req_mood = unconvertible,
          req_timeAvailable = JUndefined, req_maxDistance = JUndefined\<rparr> \<and>
   truthy unconvertible \<and>
   getPlacesFromFoursquare env_offline (JStr ''Seattle, WA'') unconvertible JUndefined
     = Inl TypeError\<close>
  by code_simp

text \<open>
  Claim C9. For a successful search response with the results \<open>rs\<close>, the lookup returns
  \<open>min (length rs) 3\<close> places, not rate-limited: they are the details of the first three
  results, in their order, and no place stands for a later result. The search request
  asks for up to 5 results.
\<close>

theorem places_lookup_first_three:
  assumes "to_string mood = Inr key"
    and "search_request_of location key maxDistance = Inr q"
    and "fetch_search e q = Response r"
    and "ok r" and "resp_json r = Some searchData"
    and "rs = (case results searchData of None \<Rightarrow> [] | Some xs \<Rightarrow> xs)"
  shows "\<exists>ps. getPlacesFromFoursquare e location mood maxDistance = Inr (PlacesResult ps False) \<and>
      length ps = min (length rs) 3 \<and>
      map Inr ps = map (\<lambda>(i, place). place_details e i place) (enumerate 0 (take 3 rs)) \<and>
      q_limit q = 5"
proof -
  from getPlaces_found [OF assms] obtain ps where
    ps: "getPlacesFromFoursquare e location mood maxDistance = Inr (PlacesResult ps False)"
      "map Inr ps = map (\<lambda>(i, place). place_details e i place) (enumerate 0 (take 3 rs))"
    by blast
  have "length (map (Inr :: obj \<Rightarrow> exn + obj) ps) = length (enumerate 0 (take 3 rs))"
    by (simp only: ps(2) length_map)
  then have n: "length ps = min (length rs) 3" by simp
  have "q_limit q = 5"
    using assms(2) by (auto simp add: search_request_of_def split: sum.splits)
  with ps n show ?thesis by simp
qed

theorem places_lookup_first_three_witness:
  "\<exists>ps. getPlacesFromFoursquare
       (env_offline\<lparr>fetch_search := (\<lambda>q. search_found
          [place_named ''A'', place_named ''B'', place_named ''C'', place_named ''D''])\<rparr>)
       (JStr ''Seattle, WA'') (JStr ''coffee'') JUndefined = Inr (PlacesResult ps False) \<and>
     length ps = 3"
proof -
  let ?rs = "[place_named ''A'', place_named ''B'', place_named ''C'', place_named ''D'']"
  let ?e = "env_offline\<lparr>fetch_search := (\<lambda>q. search_found ?rs)\<rparr>"
  let ?r = "\<lparr>status = 200, resp_text = Some [], resp_json = Some \<lparr>results = Some ?rs\<rparr>\<rparr>"
  let ?q = "\<lparr>q_query = Value ''coffee'', q_near = ''Seattle%2C%20WA'',
          q_categories = Value ''13035'', q_limit = 5, q_sort = ''RELEVANCE'',
          q_open_now = True\<rparr>"
  have k: "to_string (JStr ''coffee'') = Inr ''coffee''" by simp
  have s: "search_request_of (JStr ''Seattle, WA'') ''coffee'' JUndefined = Inr ?q"
    by (rule search_request_coffee)
  have a: "fetch_search ?e ?q = Response ?r"
    by (simp add: search_found_def)
  have b: "ok ?r" by (simp add: ok_def)
  have c: "resp_json ?r = Some \<lparr>results = Some ?rs\<rparr>" by simp
  have d: "?rs = (case results \<lparr>results = Some ?rs\<rparr> of None \<Rightarrow> [] | Some xs \<Rightarrow> xs)" by simp
  show ?thesis
    using places_lookup_first_three [OF k s a b c d] by auto
qed

text \<open>
  Claim C10. Two invocations of \<open>getPlacesFromFoursquare\<close> that differ only in
  \<open>maxDistance\<close> send the same search request and return the same result: the parameter
  is accepted and never used.
\<close>

theorem places_lookup_ignores_maxDistance:
  "search_request_of location key d1 = search_request_of location key d2 \<and>
   getPlacesFromFoursquare e location mood d1 = getPlacesFromFoursquare e location mood d2"
proof -
  have q: "search_request_of location key' d1 = search_request_of location key' d2" for key'
    by (simp add: search_request_of_def)
  have "getPlacesFromFoursquare_try e location key' d1
      = getPlacesFromFoursquare_try e location key' d2" for key'
    by (simp add: getPlacesFromFoursquare_try_def q [of key'])
  then have "getPlacesFromFoursquare e location mood d1
      = getPlacesFromFoursquare e location mood d2"
    by (cases "to_string mood") (simp_all add: getPlacesFromFoursquare_def)
  with q show ?thesis by simp
qed


subsection \<open>Generate-from-scratch\<close>

text \<open>
  The match of \<^verbatim>\<open>/\[[\s\S]*\]/\<close> is the part of the text from its first \<open>[\<close> to its last
  \<open>]\<close>, and there is none exactly when the text has no \<open>[\<close> with a \<open>]\<close> after it.
\<close>

lemma match_brackets_first_last:
  assumes "CHR ''['' \<notin> set front" and "CHR '']'' \<notin> set rear"
  shows "match_brackets (front @ CHR ''['' # mid @ CHR '']'' # rear)
    = Some (CHR ''['' # mid @ [CHR '']''])"
proof -
  have a: "dropWhile (\<lambda>c. c \<noteq> CHR ''['') (front @ CHR ''['' # mid @ CHR '']'' # rear)
      = CHR ''['' # mid @ CHR '']'' # rear"
    using assms(1) by (auto simp add: dropWhile_append3)
  have b: "dropWhile (\<lambda>c. c \<noteq> CHR '']'') (rev rear @ CHR '']'' # rev mid)
      = CHR '']'' # rev mid"
    using assms(2) by (auto simp add: dropWhile_append3)
  show ?thesis
    unfolding match_brackets_def a by (simp add: b Let_def)
qed

lemma match_brackets_Some:
  assumes "match_brackets t = Some m"
  shows "\<exists>front mid rear. t = front @ CHR ''['' # mid @ CHR '']'' # rear"
proof -
  define u where "u = dropWhile (\<lambda>c. c \<noteq> CHR ''['') t"
  define w where "w = dropWhile (\<lambda>c. c \<noteq> CHR '']'') (rev (tl u))"
  from assms have "u \<noteq> []" and "w \<noteq> []"
    by (auto simp add: match_brackets_def Let_def u_def w_def split: if_splits)
  from \<open>u \<noteq> []\<close> have "hd u = CHR ''[''"
    unfolding u_def using hd_dropWhile [of "\<lambda>c. c \<noteq> CHR ''[''" t] by simp
  with \<open>u \<noteq> []\<close> have u: "u = CHR ''['' # tl u" by (cases u) simp_all
  from \<open>w \<noteq> []\<close> have "hd w = CHR '']''"
    unfolding w_def using hd_dropWhile [of "\<lambda>c. c \<noteq> CHR '']''" "rev (tl u)"] by simp
  with \<open>w \<noteq> []\<close> have w: "w = CHR '']'' # tl w" by (cases w) simp_all
  have "rev (tl u) = takeWhile (\<lambda>c. c \<noteq> CHR '']'') (rev (tl u)) @ w"
    unfolding w_def by simp
  then have "rev (rev (tl u)) = rev (takeWhile (\<lambda>c. c \<noteq> CHR '']'') (rev (tl u)) @ w)"
    by (rule arg_cong)
  then have "tl u = rev (tl w) @ CHR '']'' # rev (takeWhile (\<lambda>c. c \<noteq> CHR '']'') (rev (tl u)))"
    using w by (metis rev_append rev_rev_ident rev.simps(2) append.assoc append_Cons append_Nil)
  moreover have "t = takeWhile (\<lambda>c. c \<noteq> CHR ''['') t @ u"
    unfolding u_def by simp
  ultimately have "t = takeWhile (\<lambda>c. c \<noteq> CHR ''['') t @ CHR ''['' # rev (tl w) @ CHR '']''
      # rev (takeWhile (\<lambda>c. c \<noteq> CHR '']'') (rev (tl u)))"
    using u by metis
  then show ?thesis by blast
qed

lemma match_brackets_None:
  "(\<forall>front mid rear. t \<noteq> front @ CHR ''['' # mid @ CHR '']'' # rear) \<Longrightarrow> match_brackets t = None"
  using match_brackets_Some [of t] by (cases "match_brackets t") auto

lemma match_brackets_nonempty: "match_brackets t = Some m \<Longrightarrow> t \<noteq> []"
  by (auto simp add: match_brackets_def)

text \<open>The function once the prompt is built and the provider has answered with a text.\<close>

lemma getGeminiRecommendations_text:
  assumes "configured (GEMINI_API_KEY e)"
    and "generate_request e location mood timeAvailable maxDistance = Inr q"
    and "to_string mood = Inr key"
    and "fetch_gemini e q = Response r" and "ok r" and "resp_json r = Some data"
    and "extract_text data = Some t"
  shows "getGeminiRecommendations e location mood timeAvailable maxDistance =
    (case match_brackets t of
       None \<Rightarrow> Inr (getMockRecommendations key)
     | Some m \<Rightarrow>
         (case JSON_parse m of
            Inl err \<Rightarrow> Inr (getMockRecommendations key)
          | Inr v \<Rightarrow> Inr (Value v)))"
proof (cases "match_brackets t")
  case None
  with assms show ?thesis
    by (simp add: getGeminiRecommendations_def getGeminiRecommendations_try_def)
next
  case (Some m)
  with match_brackets_nonempty [OF Some] assms show ?thesis
    by (simp add: getGeminiRecommendations_def getGeminiRecommendations_try_def
        split: sum.splits)
qed

lemma generate_request_key:
  "generate_request e location mood timeAvailable maxDistance = Inr q \<Longrightarrow>
     \<exists>key. to_string mood = Inr key"
  by (auto simp add: generate_request_def split: sum.splits)

lemma getGeminiRecommendations_cases:
  assumes "getGeminiRecommendations e (req_location req) (req_mood req)
      (req_timeAvailable req) (req_maxDistance req) = Inr recs"
  shows "\<exists>key. to_string (req_mood req) = Inr key \<and>
    (recs = getMockRecommendations key \<or>
     (\<exists>t m v. generated_text e req = Some t \<and> match_brackets t = Some m \<and>
        JSON_parse m = Inr v \<and> recs = Value v))"
  using assms
  by (auto simp add: getGeminiRecommendations_def getGeminiRecommendations_try_def
      generated_text_def mock_for_def
      split: if_splits sum.splits fetched.splits option.splits)

text \<open>
  Claim C5, as the code has it. When the text provider is configured, the prompt can be
  built, and the provider answers with a text: if the part of the text from its first
  \<open>[\<close> to its last \<open>]\<close> is well-formed JSON, the output of
  \<open>getGeminiRecommendations\<close> is the value of that part; if that part is not
  well-formed JSON, or the text has no \<open>[\<close> with a \<open>]\<close> after it, the output is the
  entry of the mock table for the mood. The function returns a result and no exception,
  whatever the provider does, whenever the mood has a conversion to a property key and,
  with the provider configured, the prompt can be built. It throws when the provider is
  not configured and the mood has no such conversion, and when the provider is
  configured and the prompt cannot be built: the location, the mood, the time available
  or the maximal distance has no conversion to a string.
\<close>

theorem generate_from_text:
  "(configured (GEMINI_API_KEY e) \<and>
    generate_request e location mood timeAvailable maxDistance = Inr q \<and>
    to_string mood = Inr key \<and>
    fetch_gemini e q = Response r \<and> ok r \<and> resp_json r = Some data \<and>
    extract_text data = Some t \<longrightarrow>
      (t = front @ CHR ''['' # mid @ CHR '']'' # rear \<and>
       CHR ''['' \<notin> set front \<and> CHR '']'' \<notin> set rear \<and>
       JSON_parse (CHR ''['' # mid @ [CHR '']'']) = Inr v \<longrightarrow>
         getGeminiRecommendations e location mood timeAvailable maxDistance = Inr (Value v)) \<and>
      (t = front @ CHR ''['' # mid @ CHR '']'' # rear \<and>
       CHR ''['' \<notin> set front \<and> CHR '']'' \<notin> set rear \<and>
       JSON_parse (CHR ''['' # mid @ [CHR '']'']) = Inl err \<longrightarrow>
         getGeminiRecommendations e location mood timeAvailable maxDistance
           = Inr (getMockRecommendations key)) \<and>
      ((\<forall>front mid rear. t \<noteq> front @ CHR ''['' # mid @ CHR '']'' # rear) \<longrightarrow>
         getGeminiRecommendations e location mood timeAvailable maxDistance
           = Inr (getMockRecommendations key))) \<and>
   (to_string mood = Inr key \<and>
    (configured (GEMINI_API_KEY e) \<longrightarrow>
       generate_request e location mood timeAvailable maxDistance = Inr q) \<longrightarrow>
      (\<exists>res. getGeminiRecommendations e location mood timeAvailable maxDistance = Inr res)) \<and>
   (\<not> configured (GEMINI_API_KEY e) \<and> to_string mood = Inl err \<longrightarrow>
      getGeminiRecommendations e location mood timeAvailable maxDistance = Inl err) \<and>
   (configured (GEMINI_API_KEY e) \<and>
    generate_request e location mood timeAvailable maxDistance = Inl err \<longrightarrow>
      getGeminiRecommendations e location mood timeAvailable maxDistance = Inl err)"
proof -
  have a: "getGeminiRecommendations e location mood timeAvailable maxDistance = Inr (Value v)"
    if "configured (GEMINI_API_KEY e)"
      and "generate_request e location mood timeAvailable maxDistance = Inr q"
      and "to_string mood = Inr key"
      and "fetch_gemini e q = Response r" and "ok r" and "resp_json r = Some data"
      and "extract_text data = Some t"
      and "t = front @ CHR ''['' # mid @ CHR '']'' # rear"
      and "CHR ''['' \<notin> set front" and "CHR '']'' \<notin> set rear"
      and "JSON_parse (CHR ''['' # mid @ [CHR '']'']) = Inr v"
    using getGeminiRecommendations_text [OF that(1-7)] match_brackets_first_last [OF that(9,10)]
      that(8,11)
    by simp
  have b: "getGeminiRecommendations e location mood timeAvailable maxDistance
      = Inr (getMockRecommendations key)"
    if "configured (GEMINI_API_KEY e)"
      and "generate_request e location mood timeAvailable maxDistance = Inr q"
      and "to_string mood = Inr key"
      and "fetch_gemini e q = Response r" and "ok r" and "resp_json r = Some data"
      and "extract_text data = Some t"
      and "t = front @ CHR ''['' # mid @ CHR '']'' # rear"
      and "CHR ''['' \<notin> set front" and "CHR '']'' \<notin> set rear"
      and "JSON_parse (CHR ''['' # mid @ [CHR '']'']) = Inl err"
    using getGeminiRecommendations_text [OF that(1-7)] match_brackets_first_last [OF that(9,10)]
      that(8,11)
    by simp
  have c: "getGeminiRecommendations e location mood timeAvailable maxDistance
      = Inr (getMockRecommendations key)"
    if "configured (GEMINI_API_KEY e)"
      and "generate_request e location mood timeAvailable maxDistance = Inr q"
      and "to_string mood = Inr key"
      and "fetch_gemini e q = Response r" and "ok r" and "resp_json r = Some data"
      and "extract_text data = Some t"
      and "\<forall>front mid rear. t \<noteq> front @ CHR ''['' # mid @ CHR '']'' # rear"
    using getGeminiRecommendations_text [OF that(1-7)] match_brackets_None [OF that(8)]
    by simp
  have d: "\<exists>res. getGeminiRecommendations e location mood timeAvailable maxDistance = Inr res"
    if "to_string mood = Inr key"
      and "configured (GEMINI_API_KEY e) \<longrightarrow>
        generate_request e location mood timeAvailable maxDistance = Inr q"
    using that
    by (auto simp add: getGeminiRecommendations_def mock_for_def split: sum.splits)
  have e: "getGeminiRecommendations e location mood timeAvailable maxDistance = Inl err"
    if "\<not> configured (GEMINI_API_KEY e)" and "to_string mood = Inl err"
    using that by (simp add: getGeminiRecommendations_def mock_for_def)
  have f: "getGeminiRecommendations e location mood timeAvailable maxDistance = Inl err"
    if "configured (GEMINI_API_KEY e)"
      and "generate_request e location mood timeAvailable maxDistance = Inl err"
    using that by (simp add: getGeminiRecommendations_def)
  show ?thesis
    using a b c d e f by blast
qed

theorem generate_from_text_witness:
  \<open>getGeminiRecommendations (env_generate ''Sure: [{"name": "Chipotle"}] Enjoy.'')
       (JStr ''Seattle, WA'') (JStr ''coffee'') JUndefined JUndefined
     = Inr (Value (JArr [JObj [(''name'', JStr ''Chipotle'')]])) \<and>
   getGeminiRecommendations (env_generate ''no list here'')
       (JStr ''Seattle, WA'') (JStr ''coffee'') JUndefined JUndefined
     = Inr (getMockRecommendations ''coffee'') \<and>
   getGeminiRecommendations (env_generate ''[1, 2,]'')
       (JStr ''Seattle, WA'') (JStr ''coffee'') JUndefined JUndefined
     = Inr (getMockRecommendations ''coffee'') \<and>
   (\<exists>res. getGeminiRecommendations env_offline
       (JStr ''Seattle, WA'') (JStr ''coffee'') JUndefined JUndefined = Inr res) \<and>
   getGeminiRecommendations env_offline
       (JStr ''Seattle, WA'') unconvertible JUndefined JUndefined = Inl TypeError \<and>
   getGeminiRecommendations (env_generate ''[]'')
       (JStr ''Seattle, WA'') (JStr ''coffee'') unconvertible JUndefined = Inl TypeError\<close>
proof -
  let ?t1 = \<open>''Sure: [{"name": "Chipotle"}] Enjoy.''\<close>
  let ?mid = \<open>''{"name": "Chipotle"}''\<close>
  let ?d = "\<lambda>t. \<lparr>g_candidates = Some [\<lparr>g_content = Some \<lparr>g_parts = Some [\<lparr>g_text = Some t\<rparr>]\<rparr>\<rparr>]\<rparr>"
  let ?r = "\<lambda>t. \<lparr>status = 200, resp_text = Some t, resp_json = Some (?d t)\<rparr>"
  let ?l = "JStr ''Seattle, WA''"
  let ?m = "JStr ''coffee''"
  let ?q = "GeneratePrompt (Value ''looking for a great coffee shop or cafe'') ''Seattle, WA''
      ''undefined'' ''undefined'' ''Monday 9:00 AM''"
  have k: "configured (GEMINI_API_KEY (env_generate t))"
    "\<not> configured (GEMINI_API_KEY env_offline)" for t
    by (simp_all add: env_generate_def env_offline_def configured_def)
  have g: "generate_request (env_generate t) ?l ?m JUndefined JUndefined = Inr ?q"
    "generate_request (env_generate t) ?l ?m unconvertible JUndefined = Inl TypeError" for t
    by (simp_all add: generate_request_def env_generate_def env_offline_def lookup_or_def
        moodDescriptions_def unconvertible_def)
  have s: "to_string ?m = Inr ''coffee''" "to_string unconvertible = Inl TypeError"
    by (simp_all add: unconvertible_def)
  have f: "fetch_gemini (env_generate t) q = Response (?r t)" for t q
    by (simp add: env_generate_def reply_text_def)
  have o: "ok (?r t)" "resp_json (?r t) = Some (?d t)" "extract_text (?d t) = Some t" for t
    by (simp_all add: ok_def extract_text_def)
  have t1: "?t1 = ''Sure: '' @ CHR ''['' # ?mid @ CHR '']'' # '' Enjoy.''" by simp
  have n1: "CHR ''['' \<notin> set ''Sure: ''" "CHR '']'' \<notin> set '' Enjoy.''" by simp_all
  have p1: "JSON_parse (CHR ''['' # ?mid @ [CHR '']''])
      = Inr (JArr [JObj [(''name'', JStr ''Chipotle'')]])"
    by code_simp
  have t2: "\<forall>front mid rear. ''no list here'' \<noteq> front @ CHR ''['' # mid @ CHR '']'' # rear"
  proof (intro allI notI)
    fix front mid rear :: string
    assume "''no list here'' = front @ CHR ''['' # mid @ CHR '']'' # rear"
    then have "CHR ''['' \<in> set ''no list here''" by (simp only: set_append list.set) simp
    then show False by simp
  qed
  have t4: "''[1, 2,]'' = [] @ CHR ''['' # ''1, 2,'' @ CHR '']'' # []" by simp
  have p4: "JSON_parse (CHR ''['' # ''1, 2,'' @ [CHR '']'']) = Inl SyntaxError" by code_simp
  have n4: "CHR ''['' \<notin> set []" "CHR '']'' \<notin> set []" by simp_all
  show ?thesis
    using
      generate_from_text [of "env_generate ?t1" ?l ?m JUndefined JUndefined ?q "''coffee''"
        "?r ?t1" "?d ?t1" ?t1 "''Sure: ''" ?mid "'' Enjoy.''"
        "JArr [JObj [(''name'', JStr ''Chipotle'')]]" SyntaxError]
      generate_from_text [of "env_generate ''no list here''" ?l ?m JUndefined JUndefined ?q
        "''coffee''" "?r ''no list here''" "?d ''no list here''" "''no list here''"
        "[]" "[]" "[]" JNull SyntaxError]
      generate_from_text [of "env_generate ''[1, 2,]''" ?l ?m JUndefined JUndefined ?q
        "''coffee''" "?r ''[1, 2,]''" "?d ''[1, 2,]''" "''[1, 2,]''"
        "[]" "''1, 2,''" "[]" JNull SyntaxError]
      generate_from_text [of env_offline ?l ?m JUndefined JUndefined ?q "''coffee''"
        "?r []" "?d []" "[]" "[]" "[]" "[]" JNull SyntaxError]
      generate_from_text [of env_offline ?l unconvertible JUndefined JUndefined ?q "''coffee''"
        "?r []" "?d []" "[]" "[]" "[]" "[]" JNull TypeError]
      generate_from_text [of "env_generate ''[]''" ?l ?m unconvertible JUndefined ?q "''coffee''"
        "?r []" "?d []" "[]" "[]" "[]" "[]" JNull TypeError]
    by (simp only: k g s f o t1 [symmetric] n1 p1 t2 t4 [symmetric] p4 n4 simp_thms)
qed

text \<open>
  Claim C5, as the specification states it, fails, in two ways. The text \<open>[]]\<close> contains
  exactly one well-formed JSON array, \<open>[]\<close>, and so does a text that has a remark in
  brackets after its array; the output for them is not that array but the entry of the
  mock table: the match is greedy, it ends at the last \<open>]\<close> of the text, and what it
  takes is not JSON. And for the request body
  \<^verbatim>\<open>{"location": "Seattle, WA", "mood": "coffee", "timeAvailable": {"toString": 1}}\<close>
  the prompt template, which stands before the \<open>try\<close>, throws: the generation path
  surfaces a TypeError to its caller.
\<close>

theorem generate_greedy_match:
  \<open>array_texts ''[]]'' = [''[]''] \<and> JSON_parse ''[]'' = Inr (JArr []) \<and>
   getGeminiRecommendations (env_generate ''[]]'')
       (JStr ''Seattle, WA'') (JStr ''coffee'') JUndefined JUndefined
     = Inr (getMockRecommendations ''coffee'') \<and>
   getMockRecommendations ''coffee'' \<noteq> Value (JArr []) \<and>
   array_texts ''[{"name": "A"}] [sic]'' = [''[{"name": "A"}]''] \<and>
   JSON_parse ''[{"name": "A"}]'' = Inr (JArr [JObj [(''name'', JStr ''A'')]]) \<and>
   getGeminiRecommendations (env_generate ''[{"name": "A"}] [sic]'')
       (JStr ''Seattle, WA'') (JStr ''coffee'') JUndefined JUndefined
     = Inr (getMockRecommendations ''coffee'') \<and>
   getMockRecommendations ''coffee'' \<noteq> Value (JArr [JObj [(''name'', JStr ''A'')]]) \<and>
   getGeminiRecommendations (env_generate ''[]'')
       (JStr ''Seattle, WA'') (JStr ''coffee'') unconvertible JUndefined
     = Inl TypeError\<close>
  by code_simp

subsection \<open>Enhance-existing\<close>

lemma map_of_put: "map_of (put k v ps) k' = (if k' = k then Some v else map_of ps k')"
  by (induction ps) auto

lemma with_description_name: "own_prop (with_description d p) ''name'' = own_prop p ''name''"
  by (simp add: with_description_def own_prop_def map_of_put)

lemma with_description_names:
  "map (\<lambda>r. own_prop r ''name'') (map (with_description d) places)
     = map (\<lambda>p. own_prop p ''name'') places"
  by (simp add: with_description_name)

lemma merge_description_name:
  "merge_description e m ds p = Inr r \<Longrightarrow> own_prop r ''name'' = own_prop p ''name''"
  by (auto simp add: merge_description_def with_description_name
      split: jsval.splits sum.splits option.splits)

lemma great_spots_names:
  assumes "great_spots places mood location = Inr rs"
  shows "map (\<lambda>r. own_prop r ''name'') rs = map (\<lambda>p. own_prop p ''name'') places"
proof (cases "places = []")
  case True
  with assms show ?thesis by (simp add: great_spots_def)
next
  case False
  with assms obtain d where "rs = map (with_description d) places"
    by (auto simp add: great_spots_def split: sum.splits)
  then show ?thesis by (simp only: with_description_names)
qed

lemma enhanceWithGemini_try_names:
  assumes "enhanceWithGemini_try e q places m = Inr rs"
  shows "map (\<lambda>r. own_prop r ''name'') rs = map (\<lambda>p. own_prop p ''name'') places"
proof -
  have merged: "sequence (map (merge_description e m ds) places) = Inr rs \<Longrightarrow> ?thesis" for ds
    by (rule sequence_map_preserves) (auto simp add: merge_description_name)
  from assms show ?thesis
    unfolding enhanceWithGemini_try_def
    by (auto split: fetched.splits if_splits option.splits sum.splits
        simp add: with_description_names merged simp del: map_map)
qed

text \<open>
  Whatever the text provider does, enhancement returns the places in their order, each
  with its name and a description, when it returns.
\<close>

lemma enhanceWithGemini_names:
  assumes "enhanceWithGemini e places mood location = Inr rs"
  shows "map (\<lambda>r. own_prop r ''name'') rs = map (\<lambda>p. own_prop p ''name'') places"
proof (cases "configured (GEMINI_API_KEY e)")
  case False
  with assms show ?thesis by (simp add: enhanceWithGemini_def great_spots_names)
next
  case True
  with assms obtain q m where
    r: "(\<exists>err. enhanceWithGemini_try e q places m = Inl err \<and>
          great_spots places mood location = Inr rs) \<or>
        enhanceWithGemini_try e q places m = Inr rs"
    by (auto simp add: enhanceWithGemini_def split: sum.splits)
  then show ?thesis
    by (auto simp add: great_spots_names enhanceWithGemini_try_names)
qed

subsection \<open>Recommendation Assembler\<close>

lemma success_cases:
  "(\<exists>err. stringify_error e (envelope_of recs src limited) = Some err \<and>
      success e recs src limited = Inl err) \<or>
   (stringify_error e (envelope_of recs src limited) = None \<and>
      success e recs src limited
        = Inr \<lparr>statusCode = 200, body = Recommendations (envelope_of recs src limited)\<rparr>)"
  by (cases "stringify_error e (envelope_of recs src limited)") (simp_all add: success_def)

lemma success_Inr:
  "success e recs src limited = Inr resp \<Longrightarrow>
     resp = \<lparr>statusCode = 200, body = Recommendations (envelope_of recs src limited)\<rparr>"
  using success_cases [of e recs src limited] by auto

lemma handler_POST:
  assumes "httpMethod ev = ''POST''" and "received ev = Inr req"
    and "truthy (req_location req)" and "truthy (req_mood req)"
  shows "handler e ev =
    (case assemble e (req_location req) (req_mood req) (req_timeAvailable req)
            (req_maxDistance req) of
       Inl err \<Rightarrow> failure
     | Inr r \<Rightarrow> r)"
  using assms by (simp add: handler_def handler_try_def)

lemma handler_try_POST:
  assumes "httpMethod ev = ''POST''" and "statusCode (handler e ev) = 200"
  shows "\<exists>req. received ev = Inr req \<and>
    assemble e (req_location req) (req_mood req) (req_timeAvailable req) (req_maxDistance req)
      = Inr (handler e ev)"
  using assms
  by (auto simp add: handler_def handler_try_def failure_def
      split: sum.splits if_splits)

lemma assemble_cases:
  assumes "assemble e location mood timeAvailable maxDistance = Inr resp"
  shows "(\<exists>recs limited.
        getGeminiRecommendations e location mood timeAvailable maxDistance = Inr recs \<and>
        resp = \<lparr>statusCode = 200, body = Recommendations (envelope_of recs ''ai'' limited)\<rparr>) \<or>
    (\<exists>res recs. getPlacesFromFoursquare e location mood maxDistance = Inr res \<and>
        places_of res \<noteq> [] \<and>
        enhanceWithGemini e (places_of res) mood location = Inr recs \<and>
        resp = \<lparr>statusCode = 200,
                body = Recommendations
                  (envelope_of (Value (JArr (map JObj recs))) ''foursquare'' False)\<rparr>)"
  using assms
  by (auto simp add: assemble_def split: if_splits sum.splits dest!: success_Inr)

text \<open>
  Claim C1, as the code has it. For every POST request that the handler answers with
  status 200, the body is an envelope, and its recommendations are a non-empty array
  when they come from the enhancement of places or from the mock table, for a mood that
  is not the name of a property the table inherits. When they are the value parsed from
  the text of the text provider, that value is returned as it is, without a check.
\<close>

theorem handler_recommendations_origin:
  assumes "httpMethod ev = ''POST''" and "statusCode (handler e ev) = 200"
  shows "\<exists>env req. received ev = Inr req \<and> body (handler e ev) = Recommendations env \<and>
    ((\<exists>xs. recommendations env = Value (JArr xs) \<and> xs \<noteq> []) \<or>
     (\<exists>t m v. generated_text e req = Some t \<and> match_brackets t = Some m \<and>
        JSON_parse m = Inr v \<and> recommendations env = Value v) \<or>
     (\<exists>key. to_string (req_mood req) = Inr key \<and> key \<in> set object_prototype_names \<and>
        recommendations env = Builtin key))"
proof -
  from handler_try_POST [OF assms] obtain req where req: "received ev = Inr req"
    and asm: "assemble e (req_location req) (req_mood req)
      (req_timeAvailable req) (req_maxDistance req) = Inr (handler e ev)"
    by blast
  from assemble_cases [OF asm] show ?thesis
  proof
    assume "\<exists>recs limited.
        getGeminiRecommendations e (req_location req) (req_mood req)
          (req_timeAvailable req) (req_maxDistance req) = Inr recs \<and>
        handler e ev
          = \<lparr>statusCode = 200, body = Recommendations (envelope_of recs ''ai'' limited)\<rparr>"
    then obtain recs limited where
      g: "getGeminiRecommendations e (req_location req) (req_mood req)
          (req_timeAvailable req) (req_maxDistance req) = Inr recs"
      and h: "handler e ev
          = \<lparr>statusCode = 200, body = Recommendations (envelope_of recs ''ai'' limited)\<rparr>"
      by blast
    from getGeminiRecommendations_cases [OF g] obtain key where
      key: "to_string (req_mood req) = Inr key"
      and c: "recs = getMockRecommendations key \<or>
        (\<exists>t m v. generated_text e req = Some t \<and> match_brackets t = Some m \<and>
           JSON_parse m = Inr v \<and> recs = Value v)"
      by blast
    from c getMockRecommendations_cases [of key]
    show ?thesis
      using req h key by (auto simp add: envelope_of_def)
  next
    assume "\<exists>res recs.
        getPlacesFromFoursquare e (req_location req) (req_mood req) (req_maxDistance req)
          = Inr res \<and>
        places_of res \<noteq> [] \<and>
        enhanceWithGemini e (places_of res) (req_mood req) (req_location req) = Inr recs \<and>
        handler e ev
          = \<lparr>statusCode = 200,
             body = Recommendations
               (envelope_of (Value (JArr (map JObj recs))) ''foursquare'' False)\<rparr>"
    then obtain res recs where p: "places_of res \<noteq> []"
      and en: "enhanceWithGemini e (places_of res) (req_mood req) (req_location req) = Inr recs"
      and h: "handler e ev
          = \<lparr>statusCode = 200,
             body = Recommendations
               (envelope_of (Value (JArr (map JObj recs))) ''foursquare'' False)\<rparr>"
      by blast
    from enhanceWithGemini_names [OF en]
    have "length recs = length (places_of res)" by (rule map_eq_imp_length_eq)
    with p have "recs \<noteq> []" by auto
    with req h show ?thesis by (simp add: envelope_of_def)
  qed
qed

theorem handler_recommendations_origin_witness:
  "\<exists>env. body (handler env_offline (post ''coffee'')) = Recommendations env \<and>
     (\<exists>xs. recommendations env = Value (JArr xs) \<and> xs \<noteq> [])"
proof -
  have a: "httpMethod (post ''coffee'') = ''POST''" by (simp add: post_def post_with_def)
  have b: "statusCode (handler env_offline (post ''coffee'')) = 200" by code_simp
  have c: "generated_text env_offline req = None" for req
    by (simp add: generated_text_def env_offline_def split: sum.splits)
  have d: "''coffee'' \<notin> set object_prototype_names" by (simp add: object_prototype_names_def)
  have "received (post ''coffee'')
      = Inr \<lparr>req_location = JStr ''Seattle, WA'', req_mood = JStr ''coffee'',
          req_timeAvailable = JNum (Decimal 3 1), req_maxDistance = JNum (Decimal 1 3)\<rparr>"
    by code_simp
  then have e: "received (post ''coffee'') = Inr req \<Longrightarrow> to_string (req_mood req) = Inr ''coffee''"
    for req
    by auto
  from handler_recommendations_origin [OF a b] show ?thesis
    using c d e by auto
qed

text \<open>
  Claim C1, as the specification states it, fails: with the text provider configured
  and answering the text \<open>[]\<close>, a POST request for the mood \<open>coffee\<close> is answered with
  status 200 and an empty array of recommendations.
\<close>

theorem handler_empty_recommendations:
  "statusCode (handler (env_generate ''[]'') (post ''coffee'')) = 200 \<and>
   body (handler (env_generate ''[]'') (post ''coffee''))
     = Recommendations \<lparr>recommendations = Value (JArr []), source = ''ai'',
         rateLimitReached = False, message = None\<rparr>"
  by code_simp

text \<open>
  Claim C2, as the code has it. For every request that reaches Places Lookup (a POST
  with a location and a mood, the places credential being configured) and for which
  Places Lookup returns \<open>rateLimited = true\<close>: if the handler answers with status 200,
  the envelope has \<open>rateLimitReached = true\<close>, \<open>source = ai\<close>, the message about live
  data, and as recommendations the output of \<open>getGeminiRecommendations\<close> for the
  request; otherwise \<open>getGeminiRecommendations\<close> has thrown, or \<open>JSON.stringify\<close> has
  on the envelope, and the handler answers with status 500 and no envelope.
\<close>

theorem handler_rate_limited:
  assumes "configured (FOURSQUARE_API_KEY e)" and "httpMethod ev = ''POST''"
    and "received ev = Inr req"
    and "truthy (req_location req)" and "truthy (req_mood req)"
    and "getPlacesFromFoursquare e (req_location req) (req_mood req) (req_maxDistance req)
      = Inr res"
    and "rateLimited res"
  shows "(statusCode (handler e ev) = 200 \<longrightarrow>
      (\<exists>recs.
         getGeminiRecommendations e (req_location req) (req_mood req) (req_timeAvailable req)
           (req_maxDistance req) = Inr recs \<and>
         body (handler e ev) = Recommendations
           \<lparr>recommendations = recs, source = ''ai'', rateLimitReached = True,
            message =
              Some ''Live data temporarily unavailable. Showing AI-generated recommendations.''\<rparr>)) \<and>
    (statusCode (handler e ev) \<noteq> 200 \<longrightarrow>
      handler e ev = \<lparr>statusCode = 500, body = ErrorBody ''Failed to get recommendations''\<rparr> \<and>
      ((\<exists>err. getGeminiRecommendations e (req_location req) (req_mood req)
           (req_timeAvailable req) (req_maxDistance req) = Inl err) \<or>
       (\<exists>recs err.
          getGeminiRecommendations e (req_location req) (req_mood req) (req_timeAvailable req)
            (req_maxDistance req) = Inr recs \<and>
          stringify_error e (envelope_of recs ''ai'' True) = Some err)))"
proof (cases "getGeminiRecommendations e (req_location req) (req_mood req)
    (req_timeAvailable req) (req_maxDistance req)")
  case (Inl err)
  then have "assemble e (req_location req) (req_mood req) (req_timeAvailable req)
      (req_maxDistance req) = Inl err"
    using assms(1,6,7) by (simp add: assemble_def)
  then have "handler e ev = failure"
    using handler_POST [OF assms(2-5), of e] by simp
  with Inl show ?thesis by (simp add: failure_def)
next
  case (Inr recs)
  then have a: "assemble e (req_location req) (req_mood req) (req_timeAvailable req)
      (req_maxDistance req) = success e recs ''ai'' True"
    using assms(1,6,7) by (simp add: assemble_def)
  from success_cases [of e recs "''ai''" True] show ?thesis
  proof (elim disjE exE conjE)
    fix err
    assume "stringify_error e (envelope_of recs ''ai'' True) = Some err"
      and "success e recs ''ai'' True = Inl err"
    with a Inr handler_POST [OF assms(2-5), of e] show ?thesis
      by (auto simp add: failure_def)
  next
    assume "stringify_error e (envelope_of recs ''ai'' True) = None"
      and "success e recs ''ai'' True
        = Inr \<lparr>statusCode = 200, body = Recommendations (envelope_of recs ''ai'' True)\<rparr>"
    with a Inr handler_POST [OF assms(2-5), of e] show ?thesis
      by (simp add: envelope_of_def)
  qed
qed

theorem handler_rate_limited_witness:
  \<open>statusCode (handler (env_offline\<lparr>FOURSQUARE_API_KEY := Some ''key'',
       fetch_search := (\<lambda>q. search_status 429)\<rparr>) (post ''coffee'')) = 200 \<and>
   body (handler (env_offline\<lparr>FOURSQUARE_API_KEY := Some ''key'',
       fetch_search := (\<lambda>q. search_status 429)\<rparr>) (post ''coffee''))
     = Recommendations
        \<lparr>recommendations = getMockRecommendations ''coffee'', source = ''ai'',
         rateLimitReached = True,
         message = Some ''Live data temporarily unavailable. Showing AI-generated recommendations.''\<rparr> \<and>
   handler ((env_generate ''[]'')\<lparr>FOURSQUARE_API_KEY := Some ''key'',
       fetch_search := (\<lambda>q. search_status 429)\<rparr>) (post_with ''coffee'' ''{"toString": 1}'')
     = \<lparr>statusCode = 500, body = ErrorBody ''Failed to get recommendations''\<rparr>\<close>
proof -
  let ?e = "env_offline\<lparr>FOURSQUARE_API_KEY := Some ''key'', fetch_search := (\<lambda>q. search_status 429)\<rparr>"
  let ?f = "(env_generate ''[]'')\<lparr>FOURSQUARE_API_KEY := Some ''key'',
       fetch_search := (\<lambda>q. search_status 429)\<rparr>"
  let ?bad = "\<lparr>req_location = JStr ''Seattle, WA'', req_mood = JStr ''coffee'',
       req_timeAvailable = unconvertible, req_maxDistance = JNum (Decimal 1 3)\<rparr>"
  let ?req = "\<lparr>req_location = JStr ''Seattle, WA'', req_mood = JStr ''coffee'',
       req_timeAvailable = JNum (Decimal 3 1), req_maxDistance = JNum (Decimal 1 3)\<rparr>"
  have a: "configured (FOURSQUARE_API_KEY ?e)" by (simp add: configured_def)
  have b: "httpMethod (post ''coffee'') = ''POST''" "received (post ''coffee'') = Inr ?req"
    by (simp add: post_def post_with_def) code_simp
  have t: "truthy (req_location ?req)" "truthy (req_mood ?req)" by simp_all
  have c: "getPlacesFromFoursquare ?e (req_location ?req) (req_mood ?req) (req_maxDistance ?req)
      = Inr (PlacesResult [] True)"
    by (simp add: getPlacesFromFoursquare_def getPlacesFromFoursquare_try_def search_status_def
        search_request_coffee)
  have d: "getGeminiRecommendations ?e (req_location ?req) (req_mood ?req) (req_timeAvailable ?req)
      (req_maxDistance ?req) = Inr (getMockRecommendations ''coffee'')"
    by (simp add: getGeminiRecommendations_def mock_for_def env_offline_def configured_def)
  have s: "statusCode (handler ?e (post ''coffee'')) = 200" by code_simp
  have a': "configured (FOURSQUARE_API_KEY ?f)" by (simp add: env_generate_def configured_def)
  have b': \<open>httpMethod (post_with ''coffee'' ''{"toString": 1}'') = ''POST''\<close>
    \<open>received (post_with ''coffee'' ''{"toString": 1}'') = Inr ?bad\<close>
    by (simp add: post_with_def) code_simp
  have t': "truthy (req_location ?bad)" "truthy (req_mood ?bad)" by simp_all
  have c': "getPlacesFromFoursquare ?f (req_location ?bad) (req_mood ?bad) (req_maxDistance ?bad)
      = Inr (PlacesResult [] True)"
    by (simp add: getPlacesFromFoursquare_def getPlacesFromFoursquare_try_def search_status_def
        search_request_coffee)
  have s': \<open>statusCode (handler ?f (post_with ''coffee'' ''{"toString": 1}'')) \<noteq> 200\<close>
    by code_simp
  from handler_rate_limited [OF a b(1) b(2) t c] d s
    handler_rate_limited [OF a' b'(1) b'(2) t' c'] s'
  show ?thesis by simp
qed

text \<open>
  Claim C2, as the specification states it, fails: for the request body
  \<^verbatim>\<open>{"location": "Seattle, WA", "mood": "coffee", "timeAvailable": {"toString": 1},
  "maxDistance": 1000}\<close>, with both credentials configured and a search response of
  status 429, Places Lookup returns \<open>rateLimited = true\<close>, the prompt template of
  \<open>getGeminiRecommendations\<close> throws, and the handler answers with status 500 and an
  error, not an envelope.
\<close>

theorem handler_rate_limited_failure:
  \<open>received (post_with ''coffee'' ''{"toString": 1}'')
     = Inr \<lparr>req_location = JStr ''Seattle, WA'', req_mood = JStr ''coffee'',
          req_timeAvailable = unconvertible, req_maxDistance = JNum (Decimal 1 3)\<rparr> \<and>
   getPlacesFromFoursquare
      ((env_generate ''[]'')\<lparr>FOURSQUARE_API_KEY := Some ''key'',
         fetch_search := (\<lambda>q. search_status 429)\<rparr>)
      (JStr ''Seattle, WA'') (JStr ''coffee'') (JNum (Decimal 1 3))
     = Inr (PlacesResult [] True) \<and>
   getGeminiRecommendations
      ((env_generate ''[]'')\<lparr>FOURSQUARE_API_KEY := Some ''key'',
         fetch_search := (\<lambda>q. search_status 429)\<rparr>)
      (JStr ''Seattle, WA'') (JStr ''coffee'') unconvertible (JNum (Decimal 1 3))
     = Inl TypeError \<and>
   handler
      ((env_generate ''[]'')\<lparr>FOURSQUARE_API_KEY := Some ''key'',
         fetch_search := (\<lambda>q. search_status 429)\<rparr>)
      (post_with ''coffee'' ''{"toString": 1}'')
     = \<lparr>statusCode = 500, body = ErrorBody ''Failed to get recommendations''\<rparr>\<close>
  by code_simp

text \<open>
  The scenario of a place whose details have the price \<open>n\<close>, for every \<open>n\<close> from 1 to the
  length of the longest string: Places Lookup returns the place, with \<open>n\<close> dollar signs
  as its price.
\<close>

lemma units_replicate: "units (replicate n CHR ''$'') = replicate n 36"
  by (induction n) (simp_all add: Let_def)

lemma getPlaces_priced:
  assumes "0 < n" and "n \<le> max_string_length"
  shows "getPlacesFromFoursquare (env_priced n) (JStr ''Seattle, WA'') (JStr ''coffee'')
      (JNum (Decimal 1 3)) = Inr (PlacesResult [priced_place n] False)"
proof -
  have "detailed_place ''Monday'' (place_named ''A'') ((place_named ''A'')\<lparr>price := Some n\<rparr>)
      = Inr (priced_place n)"
    using assms
    by (simp add: detailed_place_def place_named_def formatAddress_missing price_text_def
        opt_str_def distance_text_def rating_text_def formatHours_def category_text_def
        priced_place_def number_to_string_def num_nonzero_def num_infinite_def
        infinity_from_def digits.simps strip_zeros.simps)
  then have "place_details (env_priced n) 0 (place_named ''A'') = Inr (priced_place n)"
    by (simp add: place_details_def place_details_try_def env_priced_def env_offline_def ok_def)
  then show ?thesis
    by (simp add: getPlacesFromFoursquare_def getPlacesFromFoursquare_try_def
        search_request_coffee env_priced_def search_found_def ok_def enumerate_eq_zip)
qed

lemma enhance_priced:
  "enhanceWithGemini (env_priced n) [priced_place n] (JStr ''coffee'') (JStr ''Seattle, WA'')
     = Inr [with_description (JStr ''A great coffee spot in Seattle, WA.'') (priced_place n)]"
  by (simp add: enhanceWithGemini_def great_spots_def env_priced_def env_offline_def
      configured_def)

lemma stringify_priced:
  assumes "max_string_length \<le> n"
  shows "stringify_error (env_priced n)
      (envelope_of (Value (JArr (map JObj
         [with_description (JStr ''A great coffee spot in Seattle, WA.'') (priced_place n)])))
         ''foursquare'' False) = Some RangeError"
proof -
  have "0 \<le> max_string_length" by (simp add: max_string_length_def)
  with assms have "max_string_length \<le> int (length (units (replicate (nat n) CHR ''$'')))"
    by (simp add: units_replicate)
  then have "long_strings
      (JObj (with_description (JStr ''A great coffee spot in Seattle, WA.'') (priced_place n)))"
    by (simp add: long_strings_def with_description_def priced_place_def put.simps)
  then show ?thesis
    by (simp add: env_priced_def env_offline_def limited_stringify_def envelope_of_def)
qed

lemma getPlaces_longest:
  "getPlacesFromFoursquare (env_priced max_string_length) (JStr ''Seattle, WA'')
      (JStr ''coffee'') (JNum (Decimal 1 3))
     = Inr (PlacesResult [priced_place max_string_length] False)"
proof -
  have "0 < max_string_length" by (simp add: max_string_length_def)
  then show ?thesis by (rule getPlaces_priced) simp
qed

lemma handler_longest: "handler (env_priced max_string_length) (post ''coffee'') = failure"
proof -
  let ?n = max_string_length
  let ?req = "\<lparr>req_location = JStr ''Seattle, WA'', req_mood = JStr ''coffee'',
       req_timeAvailable = JNum (Decimal 3 1), req_maxDistance = JNum (Decimal 1 3)\<rparr>"
  have k: "configured (FOURSQUARE_API_KEY (env_priced ?n))"
    by (simp add: env_priced_def configured_def)
  have "success (env_priced ?n)
      (Value (JArr (map JObj
         [with_description (JStr ''A great coffee spot in Seattle, WA.'') (priced_place ?n)])))
      ''foursquare'' False = Inl RangeError"
    using stringify_priced [of ?n] by (simp add: success_def)
  then have "assemble (env_priced ?n) (JStr ''Seattle, WA'') (JStr ''coffee'')
      (JNum (Decimal 3 1)) (JNum (Decimal 1 3)) = Inl RangeError"
    using k getPlaces_longest enhance_priced [of ?n] by (simp add: assemble_def)
  moreover have "received (post ''coffee'') = Inr ?req" by code_simp
  ultimately show ?thesis
    using handler_POST [of "post ''coffee''" ?req "env_priced ?n"]
    by (simp add: post_def post_with_def)
qed

text \<open>
  Claim C3, as the code has it. For every request that reaches Places Lookup and for
  which Places Lookup returns a list of places that is not empty and not rate-limited:
  if the handler answers with status 200, the envelope has \<open>source = foursquare\<close>, and
  its recommendations are the output of \<open>enhanceWithGemini\<close> on those places, which
  has the names of the places, one by one in their order; otherwise
  \<open>enhanceWithGemini\<close> has thrown, or \<open>JSON.stringify\<close> has on the envelope, and the
  handler answers with status 500 and no envelope.
\<close>

theorem handler_enhanced_names:
  assumes "configured (FOURSQUARE_API_KEY e)" and "httpMethod ev = ''POST''"
    and "received ev = Inr req"
    and "truthy (req_location req)" and "truthy (req_mood req)"
    and "getPlacesFromFoursquare e (req_location req) (req_mood req) (req_maxDistance req)
      = Inr res"
    and "\<not> rateLimited res" and "places_of res \<noteq> []"
  shows "(statusCode (handler e ev) = 200 \<longrightarrow>
      (\<exists>recs.
         enhanceWithGemini e (places_of res) (req_mood req) (req_location req) = Inr recs \<and>
         body (handler e ev) = Recommendations
           \<lparr>recommendations = Value (JArr (map JObj recs)), source = ''foursquare'',
            rateLimitReached = False, message = None\<rparr> \<and>
         map (\<lambda>r. own_prop r ''name'') recs = map (\<lambda>p. own_prop p ''name'') (places_of res) \<and>
         (\<forall>r \<in> set recs. \<exists>p \<in> set (places_of res). own_prop r ''name'' = own_prop p ''name''))) \<and>
    (statusCode (handler e ev) \<noteq> 200 \<longrightarrow>
      handler e ev = \<lparr>statusCode = 500, body = ErrorBody ''Failed to get recommendations''\<rparr> \<and>
      ((\<exists>err. enhanceWithGemini e (places_of res) (req_mood req) (req_location req) = Inl err) \<or>
       (\<exists>recs err.
          enhanceWithGemini e (places_of res) (req_mood req) (req_location req) = Inr recs \<and>
          stringify_error e (envelope_of (Value (JArr (map JObj recs))) ''foursquare'' False)
            = Some err)))"
proof (cases "enhanceWithGemini e (places_of res) (req_mood req) (req_location req)")
  case (Inl err)
  then have "assemble e (req_location req) (req_mood req) (req_timeAvailable req)
      (req_maxDistance req) = Inl err"
    using assms(1,6,7,8) by (simp add: assemble_def)
  then have "handler e ev = failure"
    using handler_POST [OF assms(2-5), of e] by simp
  with Inl show ?thesis by (simp add: failure_def)
next
  case (Inr recs)
  let ?v = "Value (JArr (map JObj recs))"
  have a: "assemble e (req_location req) (req_mood req) (req_timeAvailable req)
      (req_maxDistance req) = success e ?v ''foursquare'' False"
    using Inr assms(1,6,7,8) by (simp add: assemble_def)
  have names: "map (\<lambda>r. own_prop r ''name'') recs = map (\<lambda>p. own_prop p ''name'') (places_of res)"
    using Inr by (rule enhanceWithGemini_names)
  have each: "\<exists>p \<in> set (places_of res). own_prop r ''name'' = own_prop p ''name''"
    if "r \<in> set recs" for r
  proof -
    from that have "own_prop r ''name'' \<in> set (map (\<lambda>r. own_prop r ''name'') recs)" by simp
    then have "own_prop r ''name'' \<in> set (map (\<lambda>p. own_prop p ''name'') (places_of res))"
      by (simp only: names)
    then show ?thesis by auto
  qed
  from success_cases [of e ?v "''foursquare''" False] show ?thesis
  proof (elim disjE exE conjE)
    fix err
    assume "stringify_error e (envelope_of ?v ''foursquare'' False) = Some err"
      and "success e ?v ''foursquare'' False = Inl err"
    with a Inr handler_POST [OF assms(2-5), of e] show ?thesis
      by (auto simp add: failure_def)
  next
    assume "stringify_error e (envelope_of ?v ''foursquare'' False) = None"
      and "success e ?v ''foursquare'' False
        = Inr \<lparr>statusCode = 200, body = Recommendations (envelope_of ?v ''foursquare'' False)\<rparr>"
    with a Inr handler_POST [OF assms(2-5), of e] names each show ?thesis
      by (simp add: envelope_of_def)
  qed
qed

theorem handler_enhanced_names_witness:
  \<open>body (handler (env_offline\<lparr>FOURSQUARE_API_KEY := Some ''key'',
       fetch_search := (\<lambda>q. search_found [place_named ''Starbucks''])\<rparr>) (post ''coffee''))
     = Recommendations
        \<lparr>recommendations = Value (JArr
           [JObj [(''name'', JStr ''Starbucks''), (''address'', JNull),
                  (''distance'', JStr ''120 meters''),
                  (''description'', JStr ''A great coffee spot in Seattle, WA.'')]]),
         source = ''foursquare'', rateLimitReached = False, message = None\<rparr> \<and>
   body (handler ((env_generate ''[{"name": "starbucks", "description": "Cosy."}]'')
       \<lparr>FOURSQUARE_API_KEY := Some ''key'',
        fetch_search := (\<lambda>q. search_found [place_named ''Starbucks''])\<rparr>) (post ''coffee''))
     = Recommendations
        \<lparr>recommendations = Value (JArr
           [JObj [(''name'', JStr ''Starbucks''), (''address'', JNull),
                  (''distance'', JStr ''120 meters''),
                  (''description'', JStr ''Cosy.'')]]),
         source = ''foursquare'', rateLimitReached = False, message = None\<rparr> \<and>
   handler (env_priced max_string_length) (post ''coffee'')
     = \<lparr>statusCode = 500, body = ErrorBody ''Failed to get recommendations''\<rparr>\<close>
proof -
  let ?b = "env_priced max_string_length"
  let ?pl = "PlacesResult [priced_place max_string_length] False"
  let ?e = "env_offline\<lparr>FOURSQUARE_API_KEY := Some ''key'',
       fetch_search := (\<lambda>q. search_found [place_named ''Starbucks''])\<rparr>"
  let ?g = \<open>(env_generate ''[{"name": "starbucks", "description": "Cosy."}]'')
       \<lparr>FOURSQUARE_API_KEY := Some ''key'',
        fetch_search := (\<lambda>q. search_found [place_named ''Starbucks''])\<rparr>\<close>
  let ?req = "\<lparr>req_location = JStr ''Seattle, WA'', req_mood = JStr ''coffee'',
       req_timeAvailable = JNum (Decimal 3 1), req_maxDistance = JNum (Decimal 1 3)\<rparr>"
  let ?p = "[(''name'', JStr ''Starbucks''), (''address'', JNull), (''distance'', JStr ''120 meters'')]"
  have a: "configured (FOURSQUARE_API_KEY ?e)" "configured (FOURSQUARE_API_KEY ?g)"
    by (simp_all add: configured_def)
  have b: "httpMethod (post ''coffee'') = ''POST''" "received (post ''coffee'') = Inr ?req"
    by (simp add: post_def post_with_def) code_simp
  have t: "truthy (req_location ?req)" "truthy (req_mood ?req)" by simp_all
  have c: "getPlacesFromFoursquare ?e (req_location ?req) (req_mood ?req) (req_maxDistance ?req)
      = Inr (PlacesResult [?p] False)"
    "getPlacesFromFoursquare ?g (req_location ?req) (req_mood ?req) (req_maxDistance ?req)
      = Inr (PlacesResult [?p] False)"
    by code_simp+
  have n: "\<not> rateLimited (PlacesResult [?p] False)" "places_of (PlacesResult [?p] False) \<noteq> []"
    by simp_all
  have d: "enhanceWithGemini ?e (places_of (PlacesResult [?p] False)) (req_mood ?req)
        (req_location ?req)
      = Inr [?p @ [(''description'', JStr ''A great coffee spot in Seattle, WA.'')]]"
    "enhanceWithGemini ?g (places_of (PlacesResult [?p] False)) (req_mood ?req)
        (req_location ?req)
      = Inr [?p @ [(''description'', JStr ''Cosy.'')]]"
    by code_simp+
  have s: "statusCode (handler ?e (post ''coffee'')) = 200"
    "statusCode (handler ?g (post ''coffee'')) = 200"
    by code_simp+
  have a': "configured (FOURSQUARE_API_KEY ?b)" by (simp add: env_priced_def configured_def)
  have c': "getPlacesFromFoursquare ?b (req_location ?req) (req_mood ?req) (req_maxDistance ?req)
      = Inr ?pl"
    using getPlaces_longest by simp
  have n': "\<not> rateLimited ?pl" "places_of ?pl \<noteq> []" by simp_all
  have s': "statusCode (handler ?b (post ''coffee'')) \<noteq> 200"
    by (simp add: handler_longest failure_def)
  from handler_enhanced_names [OF a(1) b(1) b(2) t c(1) n]
    handler_enhanced_names [OF a(2) b(1) b(2) t c(2) n] d s
    handler_enhanced_names [OF a' b(1) b(2) t c' n'] s'
  show ?thesis by simp
qed

text \<open>
  Claim C3, as the specification states it, fails: when the details of the place that
  the search finds have the price 536870888, \<^verbatim>\<open>'$'.repeat(detail.price)\<close> is a string of
  the greatest length that the engine allows, and Places Lookup returns the place, in a
  list that is not empty and not rate-limited; the text of the envelope would be longer
  than that, \<open>JSON.stringify\<close> throws, and the handler answers with status 500 and an
  error, not an envelope.
\<close>

theorem handler_enhanced_failure:
  "getPlacesFromFoursquare (env_priced max_string_length) (JStr ''Seattle, WA'')
      (JStr ''coffee'') (JNum (Decimal 1 3))
     = Inr (PlacesResult [priced_place max_string_length] False) \<and>
   handler (env_priced max_string_length) (post ''coffee'')
     = \<lparr>statusCode = 500, body = ErrorBody ''Failed to get recommendations''\<rparr>"
  using getPlaces_longest handler_longest by (simp add: failure_def)


end
